theory Spec2Isabelle
  imports Complex_Main
begin

section \<open>Python values shared by the three modules\<close>

text \<open>
  Exceptions are values: every operation that can raise returns \<open>exn + 'a\<close>, with
  \<open>Inl\<close> for the exception.  Double-precision floats are idealised as \<^typ>\<open>real\<close>
  (and complex doubles as \<^typ>\<open>complex\<close>): the development is about control flow, about
  which operation writes or computes what, and about the formulas combined, not about rounding.
\<close>

datatype exn = AttributeError | TypeError | ValueError | IndexError | ZeroDivisionError

definition bindE :: "'e + 'a \<Rightarrow> ('a \<Rightarrow> 'e + 'b) \<Rightarrow> 'e + 'b" where
  "bindE m f = (case m of Inl e \<Rightarrow> Inl e | Inr x \<Rightarrow> f x)"

text \<open>The text streams a message can go to: the two process streams, or any other sink.\<close>

datatype stream = SysStdout | SysStderr | Sink nat

datatype io_event = Write stream string | Flush stream

text \<open>Arguments of the \<open>%\<close> string-formatting operator.\<close>

datatype fmt_arg = FStr string | FInt int | FFloat real | FTuple "fmt_arg list"

text \<open>
  What the modules take from the Python runtime: the \<open>%\<close> operator on strings (which raises
  when template and arguments do not fit), and the readings of \<open>time.clock()\<close> and
  \<open>time.time()\<close>, the \<open>n\<close>-th call returning the \<open>n\<close>-th reading.
\<close>

record pyrt =
  fmt :: "string \<Rightarrow> fmt_arg list \<Rightarrow> exn + string"
  clock :: "nat \<Rightarrow> real"
  wtime :: "nat \<Rightarrow> real"


text \<open>
  The collaborators of the solver whose code is outside these modules.  The model records
  each completed call of one of them, in order, so that "is computed" and "is not invoked"
  can be stated.
\<close>

datatype delegate =
  CallMakeRdm1 | CallGetHcore | CallBuild | CallNrUks | CallHybridCoeff
  | CallGetJ | CallGetJK | CallLargeRho | CallMakeMask

text \<open>
  The process state: everything written so far, in order; how often each clock was read;
  the module global \<open>TIMER_LEVEL\<close> of the logger, which callers may reassign; and the
  record of collaborator calls.
\<close>

record world =
  events :: "io_event list"
  nclock :: nat
  ntime :: nat
  TIMER_LEVEL :: int
  invoked :: "delegate list"

definition invoke :: "delegate \<Rightarrow> world \<Rightarrow> world" where
  "invoke d w = w\<lparr>invoked := invoked w @ [d]\<rparr>"

text \<open>The collaborators called between two process states.\<close>

definition new_calls :: "world \<Rightarrow> world \<Rightarrow> delegate list" where
  "new_calls w w' = drop (length (invoked w)) (invoked w')"

definition stream_write :: "stream \<Rightarrow> string \<Rightarrow> world \<Rightarrow> world" where
  "stream_write f s w = w\<lparr>events := events w @ [Write f s]\<rparr>"

definition stream_flush :: "stream \<Rightarrow> world \<Rightarrow> world" where
  "stream_flush f w = w\<lparr>events := events w @ [Flush f]\<rparr>"

definition time_clock :: "pyrt \<Rightarrow> world \<Rightarrow> real \<times> world" where
  "time_clock rt w = (clock rt (nclock w), w\<lparr>nclock := Suc (nclock w)\<rparr>)"

definition time_time :: "pyrt \<Rightarrow> world \<Rightarrow> real \<times> world" where
  "time_time rt w = (wtime rt (ntime w), w\<lparr>ntime := Suc (ntime w)\<rparr>)"

section \<open>Arrays of the numeric library\<close>

text \<open>
  The dense-array library is a third-party collaborator.  Its arrays are modelled as nested
  sequences of complex numbers; a \<open>Scalar\<close> also stands for a plain Python number.
  Element types are not modelled (every element is a complex number), and the arrays that
  occur are rectangular, so the extent of an axis is read off its first element.
\<close>

datatype ndarray = Scalar complex | Axis "ndarray list"

fun ndim :: "ndarray \<Rightarrow> nat" where
  "ndim (Scalar c) = 0"
| "ndim (Axis []) = 1"
| "ndim (Axis (x # xs)) = Suc (ndim x)"

fun shape :: "ndarray \<Rightarrow> nat list" where
  "shape (Scalar c) = []"
| "shape (Axis []) = [0]"
| "shape (Axis (x # xs)) = Suc (length xs) # shape x"

text \<open>An array is rectangular: the entries of an axis all have one shape.\<close>

fun rectangular :: "ndarray \<Rightarrow> bool" where
  "rectangular (Scalar c) = True"
| "rectangular (Axis xs) = (\<forall>x \<in> set xs. rectangular x \<and> shape x = shape (hd xs))"

definition np_size :: "ndarray \<Rightarrow> nat" where
  "np_size a = prod_list (shape a)"

text \<open>\<open>len(a)\<close>: the extent of the first axis; a number has no length.\<close>

fun py_len :: "ndarray \<Rightarrow> exn + nat" where
  "py_len (Scalar c) = Inl TypeError"
| "py_len (Axis xs) = Inr (length xs)"

text \<open>\<open>a[i]\<close> for a non-negative integer \<open>i\<close>.\<close>

fun getitem :: "ndarray \<Rightarrow> nat \<Rightarrow> exn + ndarray" where
  "getitem (Scalar c) i = Inl IndexError"
| "getitem (Axis xs) i = (if i < length xs then Inr (xs ! i) else Inl IndexError)"

text \<open>
  Broadcasting: shapes are aligned at their last axes; two extents fit if they are equal
  or one of them is 1.
\<close>

fun bcast_rev :: "nat list \<Rightarrow> nat list \<Rightarrow> bool" where
  "bcast_rev (m # ms) (n # ns) = ((m = n \<or> m = 1 \<or> n = 1) \<and> bcast_rev ms ns)"
| "bcast_rev ms ns = True"

definition broadcastable :: "ndarray \<Rightarrow> ndarray \<Rightarrow> bool" where
  "broadcastable a b = bcast_rev (rev (shape a)) (rev (shape b))"

lemma size_elem_lt: "x \<in> set xs \<Longrightarrow> size x < Suc (size_list size xs)"
  by (induction xs) auto

lemma size_zip_lt:
  fixes x y :: ndarray
  assumes "(x, y) \<in> set (zip xs ys)"
  shows "size x + size y < Suc (Suc (size_list size xs + size_list size ys))"
proof -
  have "x \<in> set xs" and "y \<in> set ys"
    using assms by (auto dest: set_zip_leftD set_zip_rightD)
  then have "size x < Suc (size_list size xs)" and "size y < Suc (size_list size ys)"
    by (auto dest: size_elem_lt)
  then show ?thesis by arith
qed

function bop :: "(complex \<Rightarrow> complex \<Rightarrow> complex) \<Rightarrow> ndarray \<Rightarrow> ndarray \<Rightarrow> ndarray" where
  "bop f (Scalar x) (Scalar y) = Scalar (f x y)"
| "bop f (Scalar x) (Axis ys) = Axis (map (bop f (Scalar x)) ys)"
| "bop f (Axis xs) (Scalar y) = Axis (map (\<lambda>x. bop f x (Scalar y)) xs)"
| "bop f (Axis xs) (Axis ys) =
     (if ndim (Axis xs) > ndim (Axis ys) then Axis (map (\<lambda>x. bop f x (Axis ys)) xs)
      else if ndim (Axis xs) < ndim (Axis ys) then Axis (map (bop f (Axis xs)) ys)
      else if length xs = length ys then Axis (map2 (bop f) xs ys)
      else (case xs of
              [x] \<Rightarrow> Axis (map (bop f x) ys)
            | _ \<Rightarrow> (case ys of [y] \<Rightarrow> Axis (map (\<lambda>x. bop f x y) xs) | _ \<Rightarrow> Axis [])))"
  by pat_completeness auto
termination
  by (relation "measure (\<lambda>(f, a, b). size a + size b)")
     (auto dest: size_elem_lt size_zip_lt)

definition np_add :: "ndarray \<Rightarrow> ndarray \<Rightarrow> exn + ndarray" where
  "np_add a b = (if broadcastable a b then Inr (bop (+) a b) else Inl ValueError)"

definition np_sub :: "ndarray \<Rightarrow> ndarray \<Rightarrow> exn + ndarray" where
  "np_sub a b = (if broadcastable a b then Inr (bop (-) a b) else Inl ValueError)"

definition np_mul :: "ndarray \<Rightarrow> ndarray \<Rightarrow> exn + ndarray" where
  "np_mul a b = (if broadcastable a b then Inr (bop (*) a b) else Inl ValueError)"

text \<open>
  \<open>a += b\<close>: a Python number is rebound to the sum; an array is updated in place, which
  the library refuses when the sum does not have the shape of \<open>a\<close>.
\<close>

definition np_iadd :: "ndarray \<Rightarrow> ndarray \<Rightarrow> exn + ndarray" where
  "np_iadd a b =
     (if ndim a = 0 then np_add a b
      else if broadcastable a b \<and> shape (bop (+) a b) = shape a then Inr (bop (+) a b)
      else Inl ValueError)"

text \<open>The element at a full index, for indices within the shape.\<close>

fun elem_at :: "ndarray \<Rightarrow> nat list \<Rightarrow> complex" where
  "elem_at (Scalar c) [] = c"
| "elem_at (Axis xs) (i # ix) = (if i < length xs then elem_at (xs ! i) ix else 0)"
| "elem_at a ix = 0"

text \<open>
  \<open>einsum('Kij,Kji', a, b)\<close>: the sum over \<open>K\<close>, \<open>i\<close>, \<open>j\<close> of \<open>a[K,i,j] * b[K,j,i]\<close>, for
  two arrays of three axes whose extents agree.
\<close>

definition einsum_Kij_Kji :: "ndarray \<Rightarrow> ndarray \<Rightarrow> exn + complex" where
  "einsum_Kij_Kji a b =
     (case (shape a, shape b) of
        ([K, I, J], [K', J', I']) \<Rightarrow>
          if K = K' \<and> I = I' \<and> J = J'
          then Inr (\<Sum>k\<leftarrow>[0..<K]. \<Sum>i\<leftarrow>[0..<I]. \<Sum>j\<leftarrow>[0..<J]. elem_at a [k, i, j] * elem_at b [k, j, i])
          else Inl ValueError
      | _ \<Rightarrow> Inl ValueError)"

text \<open>\<open>a[idx]\<close> for a boolean mask over the first axis, and \<open>count_nonzero\<close> of a mask.\<close>

fun mask_index :: "ndarray \<Rightarrow> bool list \<Rightarrow> exn + ndarray" where
  "mask_index (Scalar c) idx = Inl IndexError"
| "mask_index (Axis xs) idx =
     (if length idx = length xs then Inr (Axis (map fst (filter snd (zip xs idx))))
      else Inl IndexError)"

definition count_nonzero :: "bool list \<Rightarrow> nat" where
  "count_nonzero idx = length (filter (\<lambda>b. b) idx)"

section \<open>pyscf/lib/logger.py\<close>

text \<open>
  Modelled from the spec: the level constants are read from \<open>pyscf.lib.parameters\<close>, which
  is not among the sources; their values are those of the level table (QUIET 0, ERROR 1,
  WARN 2, NOTE 3, INFO 4, DEBUG 5, DEBUG1..DEBUG4 6..9).
\<close>

definition VERBOSE_DEBUG :: int where "VERBOSE_DEBUG = 5"
definition VERBOSE_INFO :: int where "VERBOSE_INFO = 4"
definition VERBOSE_NOTICE :: int where "VERBOSE_NOTICE = 3"
definition VERBOSE_WARN :: int where "VERBOSE_WARN = 2"
definition VERBOSE_ERR :: int where "VERBOSE_ERR = 1"
definition VERBOSE_QUIET :: int where "VERBOSE_QUIET = 0"

definition DEBUG4 :: int where "DEBUG4 = VERBOSE_DEBUG + 4"
definition DEBUG3 :: int where "DEBUG3 = VERBOSE_DEBUG + 3"
definition DEBUG2 :: int where "DEBUG2 = VERBOSE_DEBUG + 2"
definition DEBUG1 :: int where "DEBUG1 = VERBOSE_DEBUG + 1"
definition DEBUG :: int where "DEBUG = VERBOSE_DEBUG"
definition INFO :: int where "INFO = VERBOSE_INFO"
definition NOTE :: int where "NOTE = VERBOSE_NOTICE"
definition NOTICE :: int where "NOTICE = NOTE"
definition WARN :: int where "WARN = VERBOSE_WARN"
definition ERR :: int where "ERR = VERBOSE_ERR"
definition ERROR :: int where "ERROR = ERR"
definition QUIET :: int where "QUIET = VERBOSE_QUIET"

lemmas level_defs =
  VERBOSE_DEBUG_def VERBOSE_INFO_def VERBOSE_NOTICE_def VERBOSE_WARN_def VERBOSE_ERR_def
  VERBOSE_QUIET_def DEBUG4_def DEBUG3_def DEBUG2_def DEBUG1_def DEBUG_def INFO_def NOTE_def NOTICE_def WARN_def ERR_def
  ERROR_def QUIET_def

text \<open>
  The logging functions take any object \<open>rec\<close> with the attributes \<open>stdout\<close> and
  \<open>verbose\<close>; \<open>timer\<close> also reads and assigns \<open>_t0\<close> and \<open>_w0\<close>.  Such an
  object is an extensible record; an attribute that has not been assigned yet is \<open>None\<close>.
\<close>

record logrec =
  rec_stdout :: stream
  rec_verbose :: int
  rec_t0 :: "real option"
  rec_w0 :: "real option"

definition flush :: "pyrt \<Rightarrow> 'a logrec_scheme \<Rightarrow> string \<Rightarrow> fmt_arg list \<Rightarrow> world \<Rightarrow> exn + world" where
  "flush rt rec msg args w =
     bindE (fmt rt msg args) (\<lambda>s.
       Inr (stream_flush (rec_stdout rec)
             (stream_write (rec_stdout rec) ''\<newline>'' (stream_write (rec_stdout rec) s w))))"

definition log_msg :: "pyrt \<Rightarrow> 'a logrec_scheme \<Rightarrow> string \<Rightarrow> fmt_arg list \<Rightarrow> world \<Rightarrow> exn + world" where
  "log_msg rt rec msg args w =
     (if rec_verbose rec > QUIET then flush rt rec msg args w else Inr w)"


definition warn :: "pyrt \<Rightarrow> 'a logrec_scheme \<Rightarrow> string \<Rightarrow> fmt_arg list \<Rightarrow> world \<Rightarrow> exn + world" where
  "warn rt rec msg args w =
     (if rec_verbose rec \<ge> WARN
      then bindE (flush rt rec (''\<newline>WARN: '' @ msg @ ''\<newline>'') args w) (\<lambda>w.
             if rec_stdout rec \<noteq> SysStdout
             then bindE (fmt rt msg args) (\<lambda>s.
                    Inr (stream_write SysStderr (''WARN: '' @ s @ ''\<newline>'') w))
             else Inr w)
      else Inr w)"

definition info :: "pyrt \<Rightarrow> 'a logrec_scheme \<Rightarrow> string \<Rightarrow> fmt_arg list \<Rightarrow> world \<Rightarrow> exn + world" where
  "info rt rec msg args w =
     (if rec_verbose rec \<ge> INFO then flush rt rec msg args w else Inr w)"

definition note_msg :: "pyrt \<Rightarrow> 'a logrec_scheme \<Rightarrow> string \<Rightarrow> fmt_arg list \<Rightarrow> world \<Rightarrow> exn + world" where
  "note_msg rt rec msg args w =
     (if rec_verbose rec \<ge> NOTICE then flush rt rec msg args w else Inr w)"

definition debug :: "pyrt \<Rightarrow> 'a logrec_scheme \<Rightarrow> string \<Rightarrow> fmt_arg list \<Rightarrow> world \<Rightarrow> exn + world" where
  "debug rt rec msg args w =
     (if rec_verbose rec \<ge> DEBUG then flush rt rec msg args w else Inr w)"

definition debug1 :: "pyrt \<Rightarrow> 'a logrec_scheme \<Rightarrow> string \<Rightarrow> fmt_arg list \<Rightarrow> world \<Rightarrow> exn + world" where
  "debug1 rt rec msg args w =
     (if rec_verbose rec \<ge> DEBUG1 then flush rt rec msg args w else Inr w)"

definition debug2 :: "pyrt \<Rightarrow> 'a logrec_scheme \<Rightarrow> string \<Rightarrow> fmt_arg list \<Rightarrow> world \<Rightarrow> exn + world" where
  "debug2 rt rec msg args w =
     (if rec_verbose rec \<ge> DEBUG2 then flush rt rec msg args w else Inr w)"

definition debug3 :: "pyrt \<Rightarrow> 'a logrec_scheme \<Rightarrow> string \<Rightarrow> fmt_arg list \<Rightarrow> world \<Rightarrow> exn + world" where
  "debug3 rt rec msg args w =
     (if rec_verbose rec \<ge> DEBUG3 then flush rt rec msg args w else Inr w)"

definition debug4 :: "pyrt \<Rightarrow> 'a logrec_scheme \<Rightarrow> string \<Rightarrow> fmt_arg list \<Rightarrow> world \<Rightarrow> exn + world" where
  "debug4 rt rec msg args w =
     (if rec_verbose rec \<ge> DEBUG4 then flush rt rec msg args w else Inr w)"

definition stdout_msg :: "pyrt \<Rightarrow> 'a logrec_scheme \<Rightarrow> string \<Rightarrow> fmt_arg list \<Rightarrow> world \<Rightarrow> exn + world" where
  "stdout_msg rt rec msg args w =
     bindE (if rec_verbose rec \<ge> DEBUG then flush rt rec msg args w else Inr w) (\<lambda>w.
     bindE (fmt rt ''>>> %s\<newline>'' [FStr msg]) (\<lambda>s.
       Inr (stream_write SysStdout s w)))"

text \<open>
  \<open>timer\<close> returns a float on one path and a pair of floats on the other.  Its optional
  arguments are \<open>None\<close> when absent; \<open>if wall0:\<close> tests truthiness, so a wall time of
  zero counts as absent.
\<close>

datatype timer_ret = T1 real | T2 real real

definition truthy :: "real option \<Rightarrow> bool" where
  "truthy x = (case x of None \<Rightarrow> False | Some v \<Rightarrow> v \<noteq> 0)"

definition timer ::
  "pyrt \<Rightarrow> 'a logrec_scheme \<Rightarrow> string \<Rightarrow> real option \<Rightarrow> real option \<Rightarrow> world
     \<Rightarrow> exn + (timer_ret \<times> 'a logrec_scheme \<times> world)" where
  "timer rt rec msg cpu0 wall0 w =
     bindE (case cpu0 of
              None \<Rightarrow> (case rec_t0 rec of None \<Rightarrow> Inl AttributeError | Some t \<Rightarrow> Inr t)
            | Some c \<Rightarrow> Inr c) (\<lambda>cpu0.
     if truthy wall0 then
       (let (c, w) = time_clock rt w;
            (t, w) = time_time rt w;
            rec = rec\<lparr>rec_t0 := Some c, rec_w0 := Some t\<rparr>
        in bindE (if rec_verbose rec \<ge> TIMER_LEVEL w
                  then bindE (fmt rt ''    CPU time for %s %9.2f sec, wall time %9.2f sec''
                                [FStr msg, FFloat (c - cpu0),
                                 FFloat (t - (case wall0 of Some v \<Rightarrow> v | None \<Rightarrow> 0))])
                         (\<lambda>s. flush rt rec s [] w)
                  else Inr w) (\<lambda>w.
           Inr (T2 c t, rec, w)))
     else
       (let (c, w) = time_clock rt w;
            rec = rec\<lparr>rec_t0 := Some c\<rparr>
        in bindE (if rec_verbose rec \<ge> TIMER_LEVEL w
                  then bindE (fmt rt ''    CPU time for %s %9.2f sec'' [FStr msg, FFloat (c - cpu0)])
                         (\<lambda>s. flush rt rec s [] w)
                  else Inr w) (\<lambda>w.
           Inr (T1 c, rec, w))))"

definition timer_debug1 ::
  "pyrt \<Rightarrow> 'a logrec_scheme \<Rightarrow> string \<Rightarrow> real option \<Rightarrow> real option \<Rightarrow> world
     \<Rightarrow> exn + (timer_ret \<times> 'a logrec_scheme \<times> world)" where
  "timer_debug1 rt rec msg cpu0 wall0 w =
     (if rec_verbose rec \<ge> DEBUG1 then timer rt rec msg cpu0 wall0 w
      else if truthy wall0 then
        (let (c, w) = time_clock rt w;
             (t, w) = time_time rt w
         in Inr (T2 c t, rec\<lparr>rec_t0 := Some c, rec_w0 := Some t\<rparr>, w))
      else
        (let (c, w) = time_clock rt w
         in Inr (T1 c, rec\<lparr>rec_t0 := Some c\<rparr>, w)))"

text \<open>\<open>Logger.__init__\<close>: the two timestamps start at the current readings.\<close>

definition Logger :: "pyrt \<Rightarrow> stream \<Rightarrow> int \<Rightarrow> world \<Rightarrow> logrec \<times> world" where
  "Logger rt out v w =
     (let (c, w) = time_clock rt w;
          (t, w) = time_time rt w
      in (\<lparr>rec_stdout = out, rec_verbose = v, rec_t0 = Some c, rec_w0 = Some t\<rparr>, w))"

section \<open>pyscf/pbc/dft/kuks.py\<close>

subsection \<open>Objects\<close>

text \<open>
  A cell carries the two attributes the solver reads from it.  The grid object carries its
  cell and the three arrays the solver reads and assigns; they are \<open>None\<close> before the grid
  is built.
\<close>

record cell =
  spin :: int
  nelec :: "int \<times> int"

record grids =
  grids_cell :: cell
  coords :: "ndarray option"
  weights :: "ndarray option"
  non0tab :: "ndarray option"

text \<open>The array returned by \<open>get_veff\<close>, tagged by \<open>lib.tag_array\<close> with four attributes.\<close>

record veff =
  tagged :: ndarray
  tag_ecoul :: "real option"
  tag_exc :: real
  tag_vj :: "ndarray option"
  tag_vk :: "ndarray option"

definition tag_array ::
  "ndarray \<Rightarrow> real option \<Rightarrow> real \<Rightarrow> ndarray option \<Rightarrow> ndarray option \<Rightarrow> veff" where
  "tag_array a ecoul exc vj vk =
     \<lparr>tagged = a, tag_ecoul = ecoul, tag_exc = exc, tag_vj = vj, tag_vk = vk\<rparr>"

text \<open>
  Python passes any object for any parameter.  The values that reach the parameters
  \<open>cell\<close>, \<open>dm\<close>, \<open>dm_last\<close>, \<open>vhf_last\<close> and \<open>vhf\<close> are: \<open>None\<close>, a number, an
  array, a cell, a tagged array, and the solver object itself.  An object has the
  attributes these modules read from objects of its kind, and no others.
\<close>

datatype pyval = PNone | PNum real | PArr ndarray | PCell cell | PTagged veff | PSolver

fun attr_spin :: "pyval \<Rightarrow> exn + int" where
  "attr_spin (PCell c) = Inr (spin c)"
| "attr_spin v = Inl AttributeError"

fun attr_nelec :: "pyval \<Rightarrow> exn + int \<times> int" where
  "attr_nelec (PCell c) = Inr (nelec c)"
| "attr_nelec v = Inl AttributeError"

text \<open>\<open>getattr(vhf, 'ecoul', None)\<close>.\<close>

fun getattr_ecoul :: "pyval \<Rightarrow> real option" where
  "getattr_ecoul (PTagged v) = tag_ecoul v"
| "getattr_ecoul v = None"

fun attr_exc :: "pyval \<Rightarrow> exn + real" where
  "attr_exc (PTagged v) = Inr (tag_exc v)"
| "attr_exc v = Inl AttributeError"

text \<open>\<open>v[i]\<close> on any value: only arrays (tagged or not) can be indexed.\<close>

fun pv_getitem :: "pyval \<Rightarrow> nat \<Rightarrow> exn + ndarray" where
  "pv_getitem (PArr a) i = getitem a i"
| "pv_getitem (PTagged v) i = getitem (tagged v) i"
| "pv_getitem v i = Inl TypeError"

text \<open>
  The solver.  It is passed to the logging functions, so it extends the logger's record;
  the base class (not among the sources) gives it \<open>stdout\<close> and \<open>verbose\<close>.
\<close>

record ks = logrec +
  ks_cell :: cell
  ks_kpts :: ndarray
  ks_xc :: string
  ks_grids :: grids
  ks_small_rho_cutoff :: real

text \<open>\<open>KUKS.__init__\<close>, after the base class has set the inherited attributes \<open>base\<close>.\<close>

definition KUKS :: "logrec \<Rightarrow> cell \<Rightarrow> ndarray \<Rightarrow> ks" where
  "KUKS base c kpts =
     logrec.extend base
       (ks.fields c kpts ''LDA,VWN''
          \<lparr>grids_cell = c, coords = None, weights = None, non0tab = None\<rparr>
          (1 / 10 ^ 7))"

text \<open>
  The collaborators: methods of the base solver (\<open>make_rdm1\<close>, \<open>get_hcore\<close>, \<open>get_j\<close>,
  \<open>get_jk\<close>), of the grid object (\<open>build\<close>, \<open>make_mask\<close>) and of the integration
  delegate \<open>_numint\<close> (\<open>nr_uks\<close>, \<open>hybrid_coeff\<close>, \<open>large_rho_indices\<close>).  They are
  parameters of the model: functions of their arguments that return a value or raise.
  \<open>nr_uks\<close> returns the pair of electron counts, the energy and the potential;
  \<open>large_rho_indices\<close> returns a boolean mask over the grid points.
\<close>

record collab =
  make_rdm1 :: "ks \<Rightarrow> exn + pyval"
  get_hcore :: "ks \<Rightarrow> cell \<Rightarrow> ndarray \<Rightarrow> exn + ndarray"
  get_j :: "ks \<Rightarrow> pyval \<Rightarrow> pyval \<Rightarrow> int \<Rightarrow> ndarray \<Rightarrow> ndarray option \<Rightarrow> exn + ndarray"
  get_jk :: "ks \<Rightarrow> pyval \<Rightarrow> pyval \<Rightarrow> int \<Rightarrow> ndarray \<Rightarrow> ndarray option
               \<Rightarrow> exn + ndarray \<times> ndarray"
  grids_build :: "grids \<Rightarrow> exn + grids"
  make_mask :: "grids \<Rightarrow> pyval \<Rightarrow> ndarray \<Rightarrow> exn + ndarray"
  nr_uks :: "pyval \<Rightarrow> grids \<Rightarrow> string \<Rightarrow> pyval \<Rightarrow> ndarray \<Rightarrow> ndarray option
               \<Rightarrow> exn + (real \<times> real) \<times> real \<times> ndarray"
  hybrid_coeff :: "string \<Rightarrow> int \<Rightarrow> exn + real"
  large_rho_indices :: "pyval \<Rightarrow> pyval \<Rightarrow> grids \<Rightarrow> real \<Rightarrow> ndarray \<Rightarrow> exn + bool list"

subsection \<open>get_veff\<close>

text \<open>\<open>logger.timer(ks, msg, *t0)\<close>: unpacking a float, which is not iterable, raises.\<close>

definition timer_star ::
  "pyrt \<Rightarrow> ks \<Rightarrow> string \<Rightarrow> timer_ret \<Rightarrow> world \<Rightarrow> exn + (timer_ret \<times> ks \<times> world)" where
  "timer_star rt rec msg t0 w =
     (case t0 of
        T1 c \<Rightarrow> Inl TypeError
      | T2 c t \<Rightarrow> timer rt rec msg (Some c) (Some t) w)"

text \<open>
  Lines 31 to 37: the timing checkpoint, and the grid, built if it has no coordinates yet.
  Returns \<open>small_rho_cutoff\<close> and \<open>t0\<close>.
\<close>

definition setup_grids ::
  "pyrt \<Rightarrow> collab \<Rightarrow> ks \<Rightarrow> world \<Rightarrow> exn + (real \<times> timer_ret \<times> ks \<times> world)" where
  "setup_grids rt env ks w =
     (let (c, w) = time_clock rt w;
          (t, w) = time_time rt w;
          t0 = T2 c t
      in if coords (ks_grids ks) = None then
           bindE (grids_build env (ks_grids ks)) (\<lambda>g.
           let ks = ks\<lparr>ks_grids := g\<rparr>;
               w = invoke CallBuild w;
               small_rho_cutoff = ks_small_rho_cutoff ks
           in bindE (timer_star rt ks ''setting up grids'' t0 w) (\<lambda>(t0, ks, w).
              Inr (small_rho_cutoff, t0, ks, w)))
         else Inr (0, t0, ks, w))"

text \<open>Lines 39 to 45: the numerical integration, skipped when \<open>hermi == 2\<close>.\<close>

definition integrate_xc ::
  "pyrt \<Rightarrow> collab \<Rightarrow> ks \<Rightarrow> pyval \<Rightarrow> pyval \<Rightarrow> int \<Rightarrow> ndarray \<Rightarrow> ndarray option
     \<Rightarrow> timer_ret \<Rightarrow> world
     \<Rightarrow> exn + (((real \<times> real) \<times> real \<times> ndarray) \<times> timer_ret \<times> ks \<times> world)" where
  "integrate_xc rt env ks cell dm hermi kpts kpts_band t0 w =
     (if hermi = 2 then Inr (((0, 0), 0, Scalar 0), t0, ks, w)
      else
        bindE (nr_uks env cell (ks_grids ks) (ks_xc ks) dm kpts kpts_band) (\<lambda>(n, exc, vxc).
        let w = invoke CallNrUks w in
        bindE (debug rt ks ''nelec by numeric integration = %s''
                 [FTuple [FFloat (fst n), FFloat (snd n)]] w) (\<lambda>w.
        bindE (timer_star rt ks ''vxc'' t0 w) (\<lambda>(t0, ks, w).
        Inr ((n, exc, vxc), t0, ks, w)))))"

text \<open>
  Line 48.  \<open>and\<close> evaluates from the left and stops at the first false operand; a value
  that is not an array has no \<open>ndim\<close>.
\<close>

fun ground_state_of :: "pyval \<Rightarrow> ndarray option \<Rightarrow> exn + bool" where
  "ground_state_of (PArr a) kpts_band =
     Inr (ndim a = 4 \<and> take 1 (shape a) = [2] \<and> kpts_band = None)"
| "ground_state_of (PTagged v) kpts_band =
     Inr (ndim (tagged v) = 4 \<and> take 1 (shape (tagged v)) = [2] \<and> kpts_band = None)"
| "ground_state_of v kpts_band = Inl AttributeError"

text \<open>Line 49: \<open>1./len(kpts)\<close>.\<close>

definition kpt_weight :: "ndarray \<Rightarrow> exn + real" where
  "kpt_weight kpts =
     bindE (py_len kpts) (\<lambda>nk. if nk = 0 then Inl ZeroDivisionError else Inr (1 / real nk))"

text \<open>\<open>v[0] + v[1]\<close>.\<close>

definition add01 :: "ndarray \<Rightarrow> exn + ndarray" where
  "add01 v = bindE (getitem v 0) (\<lambda>a. bindE (getitem v 1) (\<lambda>b. np_add a b))"

text \<open>\<open>einsum('Kij,Kji', dm[0], vk[0]) + einsum('Kij,Kji', dm[1], vk[1])\<close>.\<close>

definition exchange_trace :: "pyval \<Rightarrow> ndarray \<Rightarrow> exn + complex" where
  "exchange_trace dm vk =
     bindE (pv_getitem dm 0) (\<lambda>dm0. bindE (getitem vk 0) (\<lambda>vk0.
     bindE (einsum_Kij_Kji dm0 vk0) (\<lambda>ea.
     bindE (pv_getitem dm 1) (\<lambda>dm1. bindE (getitem vk 1) (\<lambda>vk1.
     bindE (einsum_Kij_Kji dm1 vk1) (\<lambda>eb.
     Inr (ea + eb)))))))"

text \<open>
  Lines 51 to 61: the Coulomb operator alone for a functional without exact exchange, the
  Coulomb and exchange operators otherwise.  Returns \<open>vj\<close>, \<open>vxc\<close> and \<open>exc\<close>.
\<close>

definition coulomb_exchange ::
  "collab \<Rightarrow> ks \<Rightarrow> pyval \<Rightarrow> pyval \<Rightarrow> int \<Rightarrow> ndarray \<Rightarrow> ndarray option \<Rightarrow> bool \<Rightarrow> real
     \<Rightarrow> real \<Rightarrow> ndarray \<Rightarrow> world \<Rightarrow> exn + (ndarray \<times> ndarray \<times> real \<times> world)" where
  "coulomb_exchange env ks cell dm hermi kpts kpts_band ground_state weight exc vxc w =
     bindE (attr_spin cell) (\<lambda>cell_spin.
     bindE (hybrid_coeff env (ks_xc ks) cell_spin) (\<lambda>hyb.
     let w = invoke CallHybridCoeff w in
     if \<bar>hyb\<bar> < 1 / 10 ^ 10 then
       bindE (get_j env ks cell dm hermi kpts kpts_band) (\<lambda>vj.
       let w = invoke CallGetJ w in
       bindE (add01 vj) (\<lambda>j.
       bindE (np_iadd vxc j) (\<lambda>vxc.
       Inr (vj, vxc, exc, w))))
     else
       bindE (get_jk env ks cell dm hermi kpts kpts_band) (\<lambda>(vj, vk).
       let w = invoke CallGetJK w in
       bindE (add01 vj) (\<lambda>j.
       bindE (np_mul vk (Scalar (complex_of_real hyb))) (\<lambda>k.
       bindE (np_sub j k) (\<lambda>jk.
       bindE (np_iadd vxc jk) (\<lambda>vxc.
       if ground_state then
         bindE (exchange_trace dm vk) (\<lambda>e.
         Inr (vj, vxc, exc - Re e * hyb * (1 / 2) * weight, w))
       else Inr (vj, vxc, exc, w))))))))"

text \<open>Lines 63 to 66: the Coulomb energy of a ground-state evaluation, \<open>None\<close> otherwise.\<close>

definition coulomb_energy :: "pyval \<Rightarrow> ndarray \<Rightarrow> bool \<Rightarrow> real \<Rightarrow> exn + real option" where
  "coulomb_energy dm vj ground_state weight =
     (if ground_state then
        bindE (pv_getitem dm 0) (\<lambda>dm0. bindE (pv_getitem dm 1) (\<lambda>dm1.
        bindE (np_add dm0 dm1) (\<lambda>d.
        bindE (add01 vj) (\<lambda>j.
        bindE (einsum_Kij_Kji d j) (\<lambda>e.
        Inr (Some (Re e * (1 / 2) * weight)))))))
      else Inr None)"

text \<open>Lines 71 and 72: the test that guards the filtering of the grid.\<close>

definition prune_test :: "real \<Rightarrow> bool \<Rightarrow> real \<times> real \<Rightarrow> int \<times> int \<Rightarrow> bool" where
  "prune_test small_rho_cutoff ground_state n ne =
     (small_rho_cutoff > 1 / 10 ^ 20 \<and> ground_state \<and>
      \<bar>fst n - real_of_int (fst ne)\<bar> < (1 / 100) * fst n \<and>
      \<bar>snd n - real_of_int (snd ne)\<bar> < (1 / 100) * snd n)"

text \<open>\<open>ks.grids.weights.size\<close> and \<open>ks.grids.coords[idx]\<close>: \<open>None\<close> has neither.\<close>

definition opt_size :: "ndarray option \<Rightarrow> exn + nat" where
  "opt_size a = (case a of None \<Rightarrow> Inl AttributeError | Some x \<Rightarrow> Inr (np_size x))"

definition opt_mask_index :: "ndarray option \<Rightarrow> bool list \<Rightarrow> exn + ndarray" where
  "opt_mask_index a idx = (case a of None \<Rightarrow> Inl TypeError | Some x \<Rightarrow> mask_index x idx)"

text \<open>Lines 70 to 80: the grid is filtered the first time it is set up.\<close>

definition prune_grids ::
  "pyrt \<Rightarrow> collab \<Rightarrow> ks \<Rightarrow> pyval \<Rightarrow> pyval \<Rightarrow> ndarray \<Rightarrow> real \<Rightarrow> bool \<Rightarrow> real \<times> real
     \<Rightarrow> world \<Rightarrow> exn + (ks \<times> world)" where
  "prune_grids rt env ks cell dm kpts small_rho_cutoff ground_state n w =
     bindE (attr_nelec cell) (\<lambda>ne.
     if prune_test small_rho_cutoff ground_state n ne then
       bindE (large_rho_indices env cell dm (ks_grids ks) small_rho_cutoff kpts) (\<lambda>idx.
       let w = invoke CallLargeRho w in
       bindE (opt_size (weights (ks_grids ks))) (\<lambda>sz.
       bindE (debug rt ks ''Drop grids %d'' [FInt (int sz - int (count_nonzero idx))] w) (\<lambda>w.
       bindE (opt_mask_index (coords (ks_grids ks)) idx) (\<lambda>c.
       let ks = ks\<lparr>ks_grids := (ks_grids ks)\<lparr>coords := Some c\<rparr>\<rparr> in
       bindE (opt_mask_index (weights (ks_grids ks)) idx) (\<lambda>wt.
       let ks = ks\<lparr>ks_grids := (ks_grids ks)\<lparr>weights := Some wt\<rparr>\<rparr> in
       bindE (make_mask env (ks_grids ks) cell c) (\<lambda>m.
       let w = invoke CallMakeMask w;
           ks = ks\<lparr>ks_grids := (ks_grids ks)\<lparr>non0tab := Some m\<rparr>\<rparr>
       in Inr (ks, w)))))))
     else Inr (ks, w))"

text \<open>
  \<open>get_veff\<close>.  The parameters \<open>dm_last\<close> and \<open>vhf_last\<close> are accepted; \<open>kpts\<close> and
  \<open>kpts_band\<close> are \<open>None\<close> or an array.  The result is the tagged array together with the
  solver (whose grid and timestamps may have been assigned) and the process state.
\<close>

definition get_veff ::
  "pyrt \<Rightarrow> collab \<Rightarrow> ks \<Rightarrow> pyval \<Rightarrow> pyval \<Rightarrow> pyval \<Rightarrow> pyval \<Rightarrow> int \<Rightarrow> ndarray option
     \<Rightarrow> ndarray option \<Rightarrow> world \<Rightarrow> exn + (veff \<times> ks \<times> world)" where
  "get_veff rt env ks cell dm dm_last vhf_last hermi kpts kpts_band w =
     (let cell = (if cell = PNone then PCell (ks_cell ks) else cell) in
      bindE (if dm = PNone
             then bindE (make_rdm1 env ks) (\<lambda>d. Inr (d, invoke CallMakeRdm1 w))
             else Inr (dm, w)) (\<lambda>(dm, w).
      let kpts = (case kpts of None \<Rightarrow> ks_kpts ks | Some k \<Rightarrow> k) in
      bindE (setup_grids rt env ks w) (\<lambda>(small_rho_cutoff, t0, ks, w).
      bindE (integrate_xc rt env ks cell dm hermi kpts kpts_band t0 w)
        (\<lambda>((n, exc, vxc), t0, ks, w).
      bindE (ground_state_of dm kpts_band) (\<lambda>ground_state.
      bindE (kpt_weight kpts) (\<lambda>weight.
      bindE (coulomb_exchange env ks cell dm hermi kpts kpts_band ground_state weight exc vxc w)
        (\<lambda>(vj, vxc, exc, w).
      bindE (coulomb_energy dm vj ground_state weight) (\<lambda>ecoul.
      let vxc = tag_array vxc ecoul exc None None in
      bindE (prune_grids rt env ks cell dm kpts small_rho_cutoff ground_state n w) (\<lambda>(ks, w).
      Inr (vxc, ks, w))))))))))"

subsection \<open>KUKS.energy_elec\<close>

text \<open>
  \<open>get_veff\<close> is a class attribute, so \<open>self.get_veff(a, b, c)\<close> is a bound-method call:
  \<open>self\<close> becomes the first parameter \<open>ks\<close> and \<open>a\<close>, \<open>b\<close>, \<open>c\<close> the parameters
  \<open>cell\<close>, \<open>dm\<close> and \<open>dm_last\<close>; the others keep their defaults.
\<close>

definition bound_get_veff ::
  "pyrt \<Rightarrow> collab \<Rightarrow> ks \<Rightarrow> pyval \<Rightarrow> pyval \<Rightarrow> pyval \<Rightarrow> world \<Rightarrow> exn + (veff \<times> ks \<times> world)" where
  "bound_get_veff rt env self a b c w = get_veff rt env self a b c (PNum 0) 1 None None w"

text \<open>\<open>e1 + vhf.ecoul + vhf.exc\<close>: adding \<open>None\<close> to a float raises.\<close>

definition need_float :: "real option \<Rightarrow> exn + real" where
  "need_float x = (case x of None \<Rightarrow> Inl TypeError | Some v \<Rightarrow> Inr v)"

definition energy_elec ::
  "pyrt \<Rightarrow> collab \<Rightarrow> ks \<Rightarrow> pyval \<Rightarrow> ndarray option \<Rightarrow> pyval \<Rightarrow> world
     \<Rightarrow> exn + ((real \<times> real) \<times> ks \<times> world)" where
  "energy_elec rt env self dm_kpts h1e_kpts vhf w =
     bindE (case h1e_kpts of
              None \<Rightarrow> bindE (get_hcore env self (ks_cell self) (ks_kpts self))
                        (\<lambda>h. Inr (h, invoke CallGetHcore w))
            | Some h \<Rightarrow> Inr (h, w)) (\<lambda>(h1e_kpts, w).
     bindE (if dm_kpts = PNone
            then bindE (make_rdm1 env self) (\<lambda>d. Inr (d, invoke CallMakeRdm1 w))
            else Inr (dm_kpts, w)) (\<lambda>(dm_kpts, w).
     bindE (if vhf = PNone \<or> getattr_ecoul vhf = None
            then bindE (bound_get_veff rt env self PSolver (PCell (ks_cell self)) dm_kpts w)
                   (\<lambda>(v, self, w). Inr (PTagged v, self, w))
            else Inr (vhf, self, w)) (\<lambda>(vhf, self, w).
     bindE (kpt_weight h1e_kpts) (\<lambda>weight.
     bindE (pv_getitem dm_kpts 0) (\<lambda>dm0.
     bindE (einsum_Kij_Kji h1e_kpts dm0) (\<lambda>ea.
     bindE (pv_getitem dm_kpts 1) (\<lambda>dm1.
     bindE (einsum_Kij_Kji h1e_kpts dm1) (\<lambda>eb.
     let e1 = weight * Re (ea + eb) in
     bindE (need_float (getattr_ecoul vhf)) (\<lambda>ecoul.
     bindE (attr_exc vhf) (\<lambda>exc.
     let tot_e = e1 + ecoul + exc in
     bindE (debug rt self ''E1 = %s  Ecoul = %s  Exc = %s''
              [FFloat e1, FFloat ecoul, FFloat exc] w) (\<lambda>w.
     Inr ((tot_e, ecoul + exc), self, w))))))))))))"

section \<open>The formulas as the specification words them\<close>

text \<open>
  Matrices are arrays of two axes; \<open>item a i\<close> is \<open>a[i]\<close> for an index within the first
  axis.  The specification writes the exchange correction with the trace of the product of
  a density matrix and the \<^emph>\<open>transpose\<close> of the exchange matrix,
  \<open>Tr(dm[s][k] \<cdot> vk[s][k]\<^sup>t)\<close>, summed over the k-points and the two spin channels.  The
  definitions follow those words: transpose, matrix product, trace.
\<close>

definition item :: "ndarray \<Rightarrow> nat \<Rightarrow> ndarray" where
  "item a i = (case getitem a i of Inr x \<Rightarrow> x | Inl e \<Rightarrow> Scalar 0)"

definition mat_transpose :: "ndarray \<Rightarrow> ndarray" where
  "mat_transpose b =
     Axis (map (\<lambda>j. Axis (map (\<lambda>i. Scalar (elem_at b [i, j])) [0..<shape b ! 0]))
             [0..<shape b ! 1])"

definition mat_mul :: "ndarray \<Rightarrow> ndarray \<Rightarrow> ndarray" where
  "mat_mul a b =
     Axis (map (\<lambda>i. Axis (map (\<lambda>l. Scalar (\<Sum>j\<leftarrow>[0..<shape a ! 1].
                                            elem_at a [i, j] * elem_at b [j, l]))
                           [0..<shape b ! 1]))
             [0..<shape a ! 0])"

definition mat_trace :: "ndarray \<Rightarrow> complex" where
  "mat_trace m = (\<Sum>i\<leftarrow>[0..<shape m ! 0]. elem_at m [i, i])"

definition claimed_spin_trace :: "ndarray \<Rightarrow> ndarray \<Rightarrow> complex" where
  "claimed_spin_trace a b =
     (\<Sum>k\<leftarrow>[0..<shape a ! 0]. mat_trace (mat_mul (item a k) (mat_transpose (item b k))))"

definition claimed_exchange_trace :: "ndarray \<Rightarrow> ndarray \<Rightarrow> complex" where
  "claimed_exchange_trace dm vk =
     claimed_spin_trace (item dm 0) (item vk 0) + claimed_spin_trace (item dm 1) (item vk 1)"


section \<open>Example inputs\<close>

text \<open>
  The runtime of the examples: a template without a conversion and with no arguments is
  returned as it is, as Python's \<open>%\<close> does, and no other template is formatted; the CPU
  clock reads 0, 1, 2, ... and the wall clock 100, 101, 102, ...; nothing has been written
  or called yet, and \<open>TIMER_LEVEL\<close> has its default, 5.
\<close>

definition literal_format :: "string \<Rightarrow> fmt_arg list \<Rightarrow> exn + string" where
  "literal_format m args = (if CHR ''%'' \<notin> set m \<and> args = [] then Inr m else Inl TypeError)"

definition rt0 :: pyrt where
  "rt0 = \<lparr>fmt = literal_format, clock = (\<lambda>n. real n), wtime = (\<lambda>n. 100 + real n)\<rparr>"

definition w0 :: world where
  "w0 = \<lparr>events = [], nclock = 0, ntime = 0, TIMER_LEVEL = 5, invoked = []\<rparr>"

text \<open>
  One k-point, two basis functions, two electrons of each spin.  The density matrix and
  the exchange matrix are complex Hermitian, as they are at a general k-point.  The grid
  has two points, of which the filter keeps the first; the integration finds 2.0201
  electrons of each spin.  The functional \<open>B3LYP\<close> has one fifth of exact exchange, any
  other none.  The solver is silent (verbosity 0) and writes to a sink of its own.
\<close>

definition mat2 :: "complex \<Rightarrow> complex \<Rightarrow> complex \<Rightarrow> complex \<Rightarrow> ndarray" where
  "mat2 a b c d = Axis [Axis [Scalar a, Scalar b], Axis [Scalar c, Scalar d]]"

definition both_spins :: "ndarray \<Rightarrow> ndarray" where
  "both_spins m = Axis [Axis [m], Axis [m]]"

definition dmH :: ndarray where "dmH = both_spins (mat2 1 \<i> (- \<i>) 1)"
definition vjH :: ndarray where "vjH = both_spins (mat2 2 0 0 2)"
definition vkH :: ndarray where "vkH = both_spins (mat2 0 \<i> (- \<i>) 0)"
definition vxcH :: ndarray where "vxcH = both_spins (mat2 (- 1) 0 0 (- 1))"
definition h1eH :: ndarray where "h1eH = Axis [mat2 (- 1) 0 0 (- 1)]"
definition kptsH :: ndarray where "kptsH = Axis [Axis [Scalar 0, Scalar 0, Scalar 0]]"

definition cellH :: cell where "cellH = \<lparr>spin = 0, nelec = (2, 2)\<rparr>"

definition gridsH :: grids where
  "gridsH = \<lparr>grids_cell = cellH,
             coords = Some (Axis [Axis [Scalar 0, Scalar 0, Scalar 0],
                                  Axis [Scalar 1, Scalar 0, Scalar 0]]),
             weights = Some (Axis [Scalar 1, Scalar 1]),
             non0tab = Some (Axis [Scalar 1, Scalar 1])\<rparr>"

definition gridsH_pruned :: grids where
  "gridsH_pruned = \<lparr>grids_cell = cellH,
                    coords = Some (Axis [Axis [Scalar 0, Scalar 0, Scalar 0]]),
                    weights = Some (Axis [Scalar 1]),
                    non0tab = Some (Axis [Scalar 1])\<rparr>"

definition envH :: collab where
  "envH = \<lparr>
     make_rdm1 = (\<lambda>ks. Inr (PArr dmH)),
     get_hcore = (\<lambda>ks c k. Inr h1eH),
     get_j = (\<lambda>ks c d h k kb. Inr vjH),
     get_jk = (\<lambda>ks c d h k kb. Inr (vjH, vkH)),
     grids_build = (\<lambda>g. Inr gridsH),
     make_mask = (\<lambda>g c x. Inr (Axis [Scalar 1])),
     nr_uks = (\<lambda>c g x d k kb. Inr ((20201 / 10000, 20201 / 10000), - 1 / 2, vxcH)),
     hybrid_coeff = (\<lambda>x s. Inr (if x = ''B3LYP'' then 1 / 5 else 0)),
     large_rho_indices = (\<lambda>c d g r k. Inr [True, False])\<rparr>"

definition ksH :: ks where
  "ksH = KUKS \<lparr>rec_stdout = Sink 0, rec_verbose = 0, rec_t0 = None, rec_w0 = None\<rparr>
           cellH kptsH"

section \<open>Sequencing operations that can raise\<close>

lemma bindE_Inl [simp]: "bindE (Inl e) f = Inl e"
  by (simp add: bindE_def)

lemma bindE_Inr [simp]: "bindE (Inr x) f = f x"
  by (simp add: bindE_def)

lemma bindE_eq_Inr: "bindE m f = Inr y \<longleftrightarrow> (\<exists>x. m = Inr x \<and> f x = Inr y)"
  by (cases m) simp_all

lemma bindE_assoc: "bindE (bindE m f) g = bindE m (\<lambda>x. bindE (f x) g)"
  by (cases m) simp_all

section \<open>Properties of the logger\<close>

lemma flush_eq_Inr:
  "flush rt rec msg args w = Inr w' \<longleftrightarrow>
     (\<exists>s. fmt rt msg args = Inr s \<and>
          w' = w\<lparr>events := events w @
                 [Write (rec_stdout rec) s, Write (rec_stdout rec) ''\<newline>'',
                  Flush (rec_stdout rec)]\<rparr>)"
  by (auto simp: flush_def bindE_eq_Inr stream_write_def stream_flush_def)






section \<open>What a returning call of each part of get_veff has done\<close>

lemma flush_invoked: "flush rt rec msg args w = Inr w' \<Longrightarrow> invoked w' = invoked w"
  by (auto simp: flush_eq_Inr)

lemma debug_invoked: "debug rt rec msg args w = Inr w' \<Longrightarrow> invoked w' = invoked w"
  by (auto simp: debug_def dest: flush_invoked split: if_splits)

lemma timer_Inr:
  assumes "timer rt rec msg cpu0 wall0 w = Inr (r, rec', w')"
  shows "invoked w' = invoked w \<and> logrec.more rec' = logrec.more rec \<and>
         rec_verbose rec' = rec_verbose rec \<and> rec_stdout rec' = rec_stdout rec"
  using assms
  by (auto simp: timer_def time_clock_def time_time_def Let_def bindE_eq_Inr
           dest: flush_invoked split: if_splits option.splits)

lemma timer_star_Inr:
  assumes "timer_star rt ks msg t0 w = Inr (r, ks', w')"
  shows "invoked w' = invoked w \<and> ks_grids ks' = ks_grids ks \<and> ks_xc ks' = ks_xc ks \<and>
         ks_cell ks' = ks_cell ks \<and> ks_kpts ks' = ks_kpts ks \<and>
         ks_small_rho_cutoff ks' = ks_small_rho_cutoff ks \<and>
         rec_verbose ks' = rec_verbose ks \<and> rec_stdout ks' = rec_stdout ks"
proof -
  from assms obtain c t where "timer rt ks msg (Some c) (Some t) w = Inr (r, ks', w')"
    by (auto simp: timer_star_def split: timer_ret.splits)
  from timer_Inr [OF this] show ?thesis
    by (cases ks, cases ks') auto
qed

lemma get_veff_InrE:
  assumes "get_veff rt env ks cell dm dl vl hermi kpts kb w = Inr (v, ks', w')"
  obtains d wa cutoff t0 ks1 w1 n exc0 vxc0 t1 ks2 w2 gs weight vj vxc1 exc1 w3 ecoul where
    "(if dm = PNone then bindE (make_rdm1 env ks) (\<lambda>d. Inr (d, invoke CallMakeRdm1 w))
      else Inr (dm, w)) = Inr (d, wa)"
    "setup_grids rt env ks wa = Inr (cutoff, t0, ks1, w1)"
    "integrate_xc rt env ks1 (if cell = PNone then PCell (ks_cell ks) else cell) d hermi
       (case kpts of None \<Rightarrow> ks_kpts ks | Some k \<Rightarrow> k) kb t0 w1
     = Inr ((n, exc0, vxc0), t1, ks2, w2)"
    "ground_state_of d kb = Inr gs"
    "kpt_weight (case kpts of None \<Rightarrow> ks_kpts ks | Some k \<Rightarrow> k) = Inr weight"
    "coulomb_exchange env ks2 (if cell = PNone then PCell (ks_cell ks) else cell) d hermi
       (case kpts of None \<Rightarrow> ks_kpts ks | Some k \<Rightarrow> k) kb gs weight exc0 vxc0 w2
     = Inr (vj, vxc1, exc1, w3)"
    "coulomb_energy d vj gs weight = Inr ecoul"
    "v = tag_array vxc1 ecoul exc1 None None"
    "prune_grids rt env ks2 (if cell = PNone then PCell (ks_cell ks) else cell) d
       (case kpts of None \<Rightarrow> ks_kpts ks | Some k \<Rightarrow> k) cutoff gs n w3 = Inr (ks', w')"
  using assms unfolding get_veff_def Let_def
  by (simp only: bindE_eq_Inr split_paired_Ex prod.case) blast


lemma setup_grids_Inr:
  assumes "setup_grids rt env ks w = Inr (cutoff, t0, ks1, w1)"
  shows "ks_xc ks1 = ks_xc ks \<and> ks_cell ks1 = ks_cell ks \<and> ks_kpts ks1 = ks_kpts ks \<and>
         ks_small_rho_cutoff ks1 = ks_small_rho_cutoff ks \<and>
         (if coords (ks_grids ks) = None
          then cutoff = ks_small_rho_cutoff ks \<and>
               grids_build env (ks_grids ks) = Inr (ks_grids ks1) \<and>
               invoked w1 = invoked w @ [CallBuild]
          else cutoff = 0 \<and> ks1 = ks \<and> invoked w1 = invoked w)"
proof (cases "coords (ks_grids ks) = None")
  case True
  let ?wa = "invoke CallBuild (snd (time_time rt (snd (time_clock rt w))))"
  from assms True obtain g t0' where
    g: "grids_build env (ks_grids ks) = Inr g" and
    tm: "timer_star rt (ks\<lparr>ks_grids := g\<rparr>) ''setting up grids'' t0' ?wa = Inr (t0, ks1, w1)" and
    cutoff: "cutoff = ks_small_rho_cutoff ks"
    by (auto simp: setup_grids_def time_clock_def time_time_def Let_def bindE_eq_Inr)
  have "invoked ?wa = invoked w @ [CallBuild]"
    by (simp add: invoke_def time_clock_def time_time_def)
  with timer_star_Inr [OF tm] True g cutoff show ?thesis by simp
next
  case False
  with assms show ?thesis
    by (auto simp: setup_grids_def time_clock_def time_time_def Let_def)
qed

lemma integrate_xc_Inr:
  assumes "integrate_xc rt env ks cell dm hermi kpts kb t0 w = Inr ((n, exc, vxc), t1, ks', w')"
  shows "ks_grids ks' = ks_grids ks \<and> ks_xc ks' = ks_xc ks \<and>
         (if hermi = 2
          then n = (0, 0) \<and> exc = 0 \<and> vxc = Scalar 0 \<and> invoked w' = invoked w
          else nr_uks env cell (ks_grids ks) (ks_xc ks) dm kpts kb = Inr (n, exc, vxc) \<and>
               invoked w' = invoked w @ [CallNrUks])"
proof (cases "hermi = 2")
  case True
  with assms show ?thesis by (simp add: integrate_xc_def)
next
  case False
  with assms obtain wa where
    nr: "nr_uks env cell (ks_grids ks) (ks_xc ks) dm kpts kb = Inr (n, exc, vxc)" and
    db: "debug rt ks ''nelec by numeric integration = %s''
           [FTuple [FFloat (fst n), FFloat (snd n)]] (invoke CallNrUks w) = Inr wa" and
    tm: "timer_star rt ks ''vxc'' t0 wa = Inr (t1, ks', w')"
    by (auto simp: integrate_xc_def Let_def bindE_eq_Inr)
  from debug_invoked [OF db] timer_star_Inr [OF tm] nr False show ?thesis
    by (simp add: invoke_def)
qed

lemma coulomb_exchange_Inr:
  assumes "coulomb_exchange env ks cell dm hermi kpts kb gs weight exc vxc w
           = Inr (vj, vxc', exc', w')"
  shows "\<exists>sp hyb j.
           attr_spin cell = Inr sp \<and> hybrid_coeff env (ks_xc ks) sp = Inr hyb \<and>
           add01 vj = Inr j \<and>
           (if \<bar>hyb\<bar> < 1 / 10 ^ 10
            then get_j env ks cell dm hermi kpts kb = Inr vj \<and>
                 np_iadd vxc j = Inr vxc' \<and> exc' = exc \<and>
                 invoked w' = invoked w @ [CallHybridCoeff, CallGetJ]
            else \<exists>vk k jk.
                   get_jk env ks cell dm hermi kpts kb = Inr (vj, vk) \<and>
                   np_mul vk (Scalar (complex_of_real hyb)) = Inr k \<and>
                   np_sub j k = Inr jk \<and> np_iadd vxc jk = Inr vxc' \<and>
                   invoked w' = invoked w @ [CallHybridCoeff, CallGetJK] \<and>
                   (if gs
                    then \<exists>e. exchange_trace dm vk = Inr e \<and>
                             exc' = exc - Re e * hyb * (1 / 2) * weight
                    else exc' = exc))"
proof -
  from assms obtain sp hyb where
    sp: "attr_spin cell = Inr sp" and hyb: "hybrid_coeff env (ks_xc ks) sp = Inr hyb"
    by (auto simp: coulomb_exchange_def bindE_eq_Inr)
  show ?thesis
  proof (cases "\<bar>hyb\<bar> < 1 / 10 ^ 10")
    case True
    with assms sp hyb show ?thesis
      by (auto simp: coulomb_exchange_def Let_def bindE_eq_Inr invoke_def)
  next
    case False
    with assms sp hyb obtain vj1 vk j k jk vxc1 where
      jk: "get_jk env ks cell dm hermi kpts kb = Inr (vj1, vk)" "add01 vj1 = Inr j"
          "np_mul vk (Scalar (complex_of_real hyb)) = Inr k" "np_sub j k = Inr jk"
          "np_iadd vxc jk = Inr vxc1" and
      rest: "(if gs then bindE (exchange_trace dm vk)
                          (\<lambda>e. Inr (vj1, vxc1, exc - Re e * hyb * (1 / 2) * weight,
                                    invoke CallGetJK (invoke CallHybridCoeff w)))
              else Inr (vj1, vxc1, exc, invoke CallGetJK (invoke CallHybridCoeff w)))
             = Inr (vj, vxc', exc', w')"
      by (auto simp: coulomb_exchange_def Let_def bindE_eq_Inr)
    from rest have "vj1 = vj" "vxc1 = vxc'"
      "invoked w' = invoked w @ [CallHybridCoeff, CallGetJK]"
      "if gs then \<exists>e. exchange_trace dm vk = Inr e \<and>
                        exc' = exc - Re e * hyb * (1 / 2) * weight
       else exc' = exc"
      by (auto simp: bindE_eq_Inr invoke_def split: if_splits)
    with False sp hyb jk show ?thesis by auto
  qed
qed

lemma coulomb_energy_Inr:
  assumes "coulomb_energy dm vj gs weight = Inr ecoul"
  shows "(ecoul \<noteq> None) = gs"
  using assms by (auto simp: coulomb_energy_def bindE_eq_Inr split: if_splits)

lemma prune_grids_Inr:
  assumes "prune_grids rt env ks cell dm kpts cutoff gs n w = Inr (ks', w')"
  shows "\<exists>ne. attr_nelec cell = Inr ne \<and>
           (if prune_test cutoff gs n ne
            then \<exists>idx c0 wt0 c1 wt1 m.
                   large_rho_indices env cell dm (ks_grids ks) cutoff kpts = Inr idx \<and>
                   coords (ks_grids ks) = Some c0 \<and> weights (ks_grids ks) = Some wt0 \<and>
                   mask_index c0 idx = Inr c1 \<and> mask_index wt0 idx = Inr wt1 \<and>
                   make_mask env ((ks_grids ks)\<lparr>coords := Some c1, weights := Some wt1\<rparr>) cell c1
                     = Inr m \<and>
                   ks_grids ks' =
                     (ks_grids ks)\<lparr>coords := Some c1, weights := Some wt1, non0tab := Some m\<rparr> \<and>
                   invoked w' = invoked w @ [CallLargeRho, CallMakeMask]
            else ks' = ks \<and> w' = w)"
proof -
  from assms obtain ne where ne: "attr_nelec cell = Inr ne"
    by (auto simp: prune_grids_def bindE_eq_Inr)
  show ?thesis
  proof (cases "prune_test cutoff gs n ne")
    case False
    with assms ne show ?thesis by (auto simp: prune_grids_def)
  next
    case True
    with assms ne obtain idx sz wa c1 wt1 m where
      idx: "large_rho_indices env cell dm (ks_grids ks) cutoff kpts = Inr idx" and
      sz: "opt_size (weights (ks_grids ks)) = Inr sz" and
      db: "debug rt ks ''Drop grids %d'' [FInt (int sz - int (count_nonzero idx))]
             (invoke CallLargeRho w) = Inr wa" and
      c1: "opt_mask_index (coords (ks_grids ks)) idx = Inr c1" and
      wt1: "opt_mask_index (weights (ks_grids ks)) idx = Inr wt1" and
      m: "make_mask env ((ks_grids ks)\<lparr>coords := Some c1, weights := Some wt1\<rparr>) cell c1 = Inr m" and
      res: "ks' = ks\<lparr>ks_grids := (ks_grids ks)\<lparr>coords := Some c1, weights := Some wt1,
                                                non0tab := Some m\<rparr>\<rparr>"
           "w' = invoke CallMakeMask wa"
      by (auto simp: prune_grids_def Let_def bindE_eq_Inr)
    from c1 obtain c0 where c0: "coords (ks_grids ks) = Some c0" "mask_index c0 idx = Inr c1"
      by (auto simp: opt_mask_index_def split: option.splits)
    from wt1 obtain wt0 where wt0: "weights (ks_grids ks) = Some wt0" "mask_index wt0 idx = Inr wt1"
      by (auto simp: opt_mask_index_def split: option.splits)
    from debug_invoked [OF db] have "invoked w' = invoked w @ [CallLargeRho, CallMakeMask]"
      by (simp add: res invoke_def)
    with True ne idx c0 wt0 m res show ?thesis by auto
  qed
qed

lemma length_shape: "length (shape a) = ndim a"
  by (induction a rule: shape.induct) simp_all

lemma first_axis_two: "ndim a = 4 \<Longrightarrow> (take 1 (shape a) = [2]) = (shape a ! 0 = 2)"
  using length_shape [of a] by (cases "shape a") auto



lemma get_veff_call_chain:
  assumes "get_veff rt env ks cell dm dl vl hermi kpts kb w = Inr (v, ks', w')"
    and st:
    "(if dm = PNone then bindE (make_rdm1 env ks) (\<lambda>d. Inr (d, invoke CallMakeRdm1 w))
      else Inr (dm, w)) = Inr (d, wa)"
    "setup_grids rt env ks wa = Inr (cutoff, t0, ks1, w1)"
    "integrate_xc rt env ks1 c d hermi k kb t0 w1 = Inr ((n, exc0, vxc0), t1, ks2, w2)"
    "coulomb_exchange env ks2 c d hermi k kb gs weight exc0 vxc0 w2 = Inr (vj, vxc1, exc1, w3)"
    "prune_grids rt env ks2 c d k cutoff gs n w3 = Inr (ks', w')"
  shows "\<exists>pre jk pr.
           invoked w2 = invoked w @ pre \<and> invoked w3 = invoked w2 @ [CallHybridCoeff, jk] \<and>
           invoked w' = invoked w3 @ pr \<and>
           new_calls w w' = pre @ [CallHybridCoeff, jk] @ pr \<and>
           pre = (if dm = PNone then [CallMakeRdm1] else []) @
                 (if coords (ks_grids ks) = None then [CallBuild] else []) @
                 (if hermi = 2 then [] else [CallNrUks]) \<and>
           (jk = CallGetJ \<or> jk = CallGetJK) \<and> (pr = [] \<or> pr = [CallLargeRho, CallMakeMask])"
proof -
  have a: "invoked wa = invoked w @ (if dm = PNone then [CallMakeRdm1] else [])"
    using st(1) by (auto simp: bindE_eq_Inr invoke_def split: if_splits)
  have b: "invoked w1 = invoked wa @ (if coords (ks_grids ks) = None then [CallBuild] else [])"
    using setup_grids_Inr [OF st(2)] by (auto split: if_splits)
  have c: "invoked w2 = invoked w1 @ (if hermi = 2 then [] else [CallNrUks])"
    using integrate_xc_Inr [OF st(3)] by (auto split: if_splits)
  obtain jk where d: "invoked w3 = invoked w2 @ [CallHybridCoeff, jk]"
    "jk = CallGetJ \<or> jk = CallGetJK"
    using coulomb_exchange_Inr [OF st(4)] by (auto split: if_splits)
  obtain pr where e: "invoked w' = invoked w3 @ pr" "pr = [] \<or> pr = [CallLargeRho, CallMakeMask]"
    using prune_grids_Inr [OF st(5)] by (auto split: if_splits)
  from a b c d e show ?thesis
    by (auto simp: new_calls_def)
qed


section \<open>The contraction of the code is a trace\<close>

text \<open>
  For rectangular arrays whose shapes fit, \<open>einsum('Kij,Kji', a, b)\<close> is the sum over
  \<open>K\<close> of the traces of the matrix products \<open>a[K] \<cdot> b[K]\<close>, with no transpose.
\<close>

lemma shape_first_extent: "shape (Axis xs) ! 0 = length xs"
  by (cases xs) simp_all

lemma shape_item:
  assumes "rectangular a" and "shape a = K # sh" and "k < K"
  shows "shape (item a k) = sh"
proof (cases a)
  case (Scalar z)
  with assms show ?thesis by simp
next
  case (Axis xs)
  with assms(2,3) obtain x xs' where xs: "xs = x # xs'" and "shape x = sh" and "k < length xs"
    by (cases xs) auto
  moreover from \<open>k < length xs\<close> have "xs ! k \<in> set xs" by (rule nth_mem)
  ultimately show ?thesis using assms(1) Axis by (auto simp: item_def)
qed

lemma elem_at_item:
  assumes "shape a = K # sh" and "k < K"
  shows "elem_at a (k # ix) = elem_at (item a k) ix"
proof (cases a)
  case (Scalar z)
  with assms show ?thesis by simp
next
  case (Axis xs)
  with assms have "k < length xs" by (cases xs) auto
  with Axis show ?thesis by (simp add: item_def)
qed

lemma sum_list_upt_cong:
  "(\<And>i. i < n \<Longrightarrow> f i = g i) \<Longrightarrow> (\<Sum>i\<leftarrow>[0..<n]. f i) = (\<Sum>i\<leftarrow>[0..<n]. (g i :: complex))"
  by (rule arg_cong [where f = sum_list]) simp

lemma mat_trace_mat_mul:
  assumes "shape A = [I, J]" and "shape B = [J, I]"
  shows "mat_trace (mat_mul A B) = (\<Sum>i\<leftarrow>[0..<I]. \<Sum>j\<leftarrow>[0..<J]. elem_at A [i, j] * elem_at B [j, i])"
proof -
  have "mat_trace (mat_mul A B)
        = (\<Sum>i\<leftarrow>[0..<I]. elem_at (mat_mul A B) [i, i])"
    using assms by (simp add: mat_trace_def mat_mul_def shape_first_extent)
  also have "\<dots> = (\<Sum>i\<leftarrow>[0..<I]. \<Sum>j\<leftarrow>[0..<J]. elem_at A [i, j] * elem_at B [j, i])"
    using assms by (intro sum_list_upt_cong) (simp add: mat_mul_def)
  finally show ?thesis .
qed

lemma einsum_Kij_Kji_trace:
  assumes "rectangular a" and "rectangular b"
    and "shape a = [K, I, J]" and "shape b = [K, J, I]"
  shows "einsum_Kij_Kji a b = Inr (\<Sum>k\<leftarrow>[0..<K]. mat_trace (mat_mul (item a k) (item b k)))"
proof -
  have "(\<Sum>k\<leftarrow>[0..<K]. \<Sum>i\<leftarrow>[0..<I]. \<Sum>j\<leftarrow>[0..<J]. elem_at a [k, i, j] * elem_at b [k, j, i])
        = (\<Sum>k\<leftarrow>[0..<K]. mat_trace (mat_mul (item a k) (item b k)))"
  proof (rule sum_list_upt_cong)
    fix k assume k: "k < K"
    have sa: "shape (item a k) = [I, J]" and sb: "shape (item b k) = [J, I]"
      using shape_item [OF assms(1) assms(3) k] shape_item [OF assms(2) assms(4) k] by simp_all
    show "(\<Sum>i\<leftarrow>[0..<I]. \<Sum>j\<leftarrow>[0..<J]. elem_at a [k, i, j] * elem_at b [k, j, i])
          = mat_trace (mat_mul (item a k) (item b k))"
      by (simp add: mat_trace_mat_mul [OF sa sb] elem_at_item [OF assms(3) k]
            elem_at_item [OF assms(4) k])
  qed
  with assms(3,4) show ?thesis by (simp add: einsum_Kij_Kji_def)
qed


lemma getitem_item:
  assumes "shape a = K # sh" and "k < K"
  shows "getitem a k = Inr (item a k)"
proof (cases a)
  case (Scalar z)
  with assms show ?thesis by simp
next
  case (Axis xs)
  with assms have "k < length xs" by (cases xs) auto
  with Axis show ?thesis by (simp add: item_def)
qed

lemma rectangular_item:
  assumes "rectangular a" and "shape a = K # sh" and "k < K"
  shows "rectangular (item a k)"
proof (cases a)
  case (Scalar z)
  with assms show ?thesis by simp
next
  case (Axis xs)
  with assms(2,3) have "k < length xs" by (cases xs) auto
  then have "xs ! k \<in> set xs" by (rule nth_mem)
  with assms(1) Axis \<open>k < length xs\<close> show ?thesis by (auto simp: item_def)
qed

lemma exchange_trace_is_trace:
  assumes "rectangular dm" and "rectangular vk"
    and "shape dm = [2, K, I, J]" and "shape vk = [2, K, J, I]"
  shows "exchange_trace (PArr dm) vk =
           Inr ((\<Sum>k\<leftarrow>[0..<K]. mat_trace (mat_mul (item (item dm 0) k) (item (item vk 0) k))) +
                (\<Sum>k\<leftarrow>[0..<K]. mat_trace (mat_mul (item (item dm 1) k) (item (item vk 1) k))))"
proof -
  have s: "\<And>s. s < 2 \<Longrightarrow>
             getitem dm s = Inr (item dm s) \<and> getitem vk s = Inr (item vk s) \<and>
             einsum_Kij_Kji (item dm s) (item vk s)
               = Inr (\<Sum>k\<leftarrow>[0..<K]. mat_trace (mat_mul (item (item dm s) k) (item (item vk s) k)))"
    using assms
    by (simp add: getitem_item einsum_Kij_Kji_trace rectangular_item shape_item)
  from s [of 0] s [of 1] show ?thesis
    by (simp add: exchange_trace_def)
qed

section \<open>Runs of the example system\<close>

lemmas run_defs = get_veff_def setup_grids_def integrate_xc_def coulomb_exchange_def
  coulomb_energy_def prune_grids_def prune_test_def kpt_weight_def add01_def exchange_trace_def
  einsum_Kij_Kji_def np_add_def np_sub_def np_mul_def np_iadd_def broadcastable_def
  opt_size_def opt_mask_index_def np_size_def count_nonzero_def tag_array_def
  timer_star_def timer_def truthy_def debug_def time_clock_def time_time_def invoke_def
  level_defs KUKS_def ks.defs logrec.defs

lemmas ex_defs = rt0_def w0_def envH_def ksH_def dmH_def vjH_def vkH_def vxcH_def h1eH_def
  kptsH_def cellH_def gridsH_def gridsH_pruned_def mat2_def both_spins_def

lemma run_lda:
  "get_veff rt0 envH ksH PNone (PArr dmH) (PNum 0) (PNum 0) 1 None None w0 =
   Inr (tag_array (both_spins (mat2 3 0 0 3)) (Some 8) (- 1 / 2) None None,
        ksH\<lparr>rec_t0 := Some 2, rec_w0 := Some 102, ks_grids := gridsH_pruned\<rparr>,
        w0\<lparr>nclock := 3, ntime := 3,
           invoked := [CallBuild, CallNrUks, CallHybridCoeff, CallGetJ, CallLargeRho,
                       CallMakeMask]\<rparr>)"
  by (simp add: run_defs ex_defs Let_def)

lemma run_b3lyp:
  "get_veff rt0 envH (ksH\<lparr>ks_xc := ''B3LYP''\<rparr>) PNone (PArr dmH) (PNum 0) (PNum 0) 1 None None w0 =
   Inr (tag_array (both_spins (mat2 3 (- \<i> / 5) (\<i> / 5) 3)) (Some 8) (- 9 / 10) None None,
        ksH\<lparr>rec_t0 := Some 2, rec_w0 := Some 102, ks_xc := ''B3LYP'',
             ks_grids := gridsH_pruned\<rparr>,
        w0\<lparr>nclock := 3, ntime := 3,
           invoked := [CallBuild, CallNrUks, CallHybridCoeff, CallGetJK, CallLargeRho,
                       CallMakeMask]\<rparr>)"
  by (simp add: run_defs ex_defs Let_def complex_eq_iff)


lemma run_band:
  "get_veff rt0 envH ksH PNone (PArr dmH) (PNum 0) (PNum 0) 1 None (Some kptsH) w0 =
   Inr (tag_array (both_spins (mat2 3 0 0 3)) None (- 1 / 2) None None,
        ksH\<lparr>rec_t0 := Some 2, rec_w0 := Some 102, ks_grids := gridsH\<rparr>,
        w0\<lparr>nclock := 3, ntime := 3,
           invoked := [CallBuild, CallNrUks, CallHybridCoeff, CallGetJ]\<rparr>)"
  by (simp add: run_defs ex_defs Let_def)


lemma run_energy_no_vhf:
  "energy_elec rt0 envH ksH (PArr dmH) (Some h1eH) PNone w0 = Inl AttributeError"
  by (simp add: energy_elec_def bound_get_veff_def run_defs ex_defs Let_def)

lemma run_energy_vhf:
  "energy_elec rt0 envH ksH (PArr dmH) (Some h1eH)
     (PTagged (tag_array (both_spins (mat2 3 0 0 3)) (Some 8) (- 1 / 2) None None)) w0
   = Inr ((7 / 2, 15 / 2), ksH, w0)"
  by (simp add: energy_elec_def need_float_def run_defs ex_defs Let_def)

lemma claimed_trace_example: "claimed_exchange_trace dmH vkH = - 4"
  by (simp add: claimed_exchange_trace_def claimed_spin_trace_def mat_trace_def mat_mul_def mat_transpose_def item_def
        dmH_def vkH_def both_spins_def mat2_def)

lemma code_trace_example: "exchange_trace (PArr dmH) vkH = Inr 4"
  by (simp add: exchange_trace_def einsum_Kij_Kji_def dmH_def vkH_def both_spins_def mat2_def)

section \<open>Properties of get_veff and energy_elec\<close>

text \<open>
  C9.  \<open>get_veff\<close> never reads \<open>dm_last\<close> and \<open>vhf_last\<close>: two calls that differ only in
  these two arguments have the same outcome, that is the same returned array with the same
  attributes \<open>ecoul\<close> and \<open>exc\<close>, the same solver (and so the same grid) afterwards, and
  the same output; or they raise the same exception.
\<close>

theorem get_veff_ignores_dm_last_vhf_last:
  "get_veff rt env ks cell dm dm_last vhf_last hermi kpts kpts_band w
   = get_veff rt env ks cell dm dm_last' vhf_last' hermi kpts kpts_band w"
  by (simp add: get_veff_def)

theorem get_veff_ignores_dm_last_vhf_last_witness:
  "get_veff rt0 envH ksH PNone (PArr dmH) (PArr vjH) (PTagged (tag_array vkH None 0 None None))
     1 None None w0 =
     Inr (tag_array (both_spins (mat2 3 0 0 3)) (Some 8) (- 1 / 2) None None,
          ksH\<lparr>rec_t0 := Some 2, rec_w0 := Some 102, ks_grids := gridsH_pruned\<rparr>,
          w0\<lparr>nclock := 3, ntime := 3,
             invoked := [CallBuild, CallNrUks, CallHybridCoeff, CallGetJ, CallLargeRho,
                         CallMakeMask]\<rparr>)"
  using get_veff_ignores_dm_last_vhf_last [of rt0 envH ksH PNone "PArr dmH" "PArr vjH"
          "PTagged (tag_array vkH None 0 None None)" 1 None None w0 "PNum 0" "PNum 0"]
        run_lda
  by simp



text \<open>
  C5.  In a call of \<open>get_veff\<close> that returns, the density matrix in use (the argument, or
  the solver's own when the argument is \<open>None\<close>) is an array; \<open>ground_state\<close> is true if
  and only if that array has exactly four axes, its first axis has length 2, and
  \<open>kpts_band\<close> is \<open>None\<close>; and the attribute \<open>ecoul\<close> of the result is present under
  exactly the same condition, and \<open>None\<close> otherwise.
\<close>

theorem get_veff_ground_state_ecoul:
  assumes "get_veff rt env ks cell dm dm_last vhf_last hermi kpts kpts_band w = Inr (v, ks', w')"
  shows "\<exists>d a. (if dm = PNone then make_rdm1 env ks else Inr dm) = Inr d \<and>
               (d = PArr a \<or> (\<exists>t. d = PTagged t \<and> a = tagged t)) \<and>
               ground_state_of d kpts_band
                 = Inr (ndim a = 4 \<and> shape a ! 0 = 2 \<and> kpts_band = None) \<and>
               (tag_ecoul v \<noteq> None) = (ndim a = 4 \<and> shape a ! 0 = 2 \<and> kpts_band = None)"
proof -
  from assms obtain d wa gs weight vj vxc1 exc1 ecoul where st:
    "(if dm = PNone then bindE (make_rdm1 env ks) (\<lambda>d. Inr (d, invoke CallMakeRdm1 w))
      else Inr (dm, w)) = Inr (d, wa)"
    "ground_state_of d kpts_band = Inr gs"
    "coulomb_energy d vj gs weight = Inr ecoul"
    "v = tag_array vxc1 ecoul exc1 None None"
    by (rule get_veff_InrE)
  have d: "(if dm = PNone then make_rdm1 env ks else Inr dm) = Inr d"
    using st(1) by (auto simp: bindE_eq_Inr split: if_splits)
  from st(2) obtain a where a: "d = PArr a \<or> (\<exists>t. d = PTagged t \<and> a = tagged t)"
    and gs: "gs = (ndim a = 4 \<and> take 1 (shape a) = [2] \<and> kpts_band = None)"
    by (cases d) auto
  have gs': "gs = (ndim a = 4 \<and> shape a ! 0 = 2 \<and> kpts_band = None)"
    using gs first_axis_two [of a] by auto
  have "(tag_ecoul v \<noteq> None) = gs"
    using coulomb_energy_Inr [OF st(3)] st(4) by (simp add: tag_array_def)
  with d a gs' st(2) show ?thesis by blast
qed

theorem get_veff_ground_state_ecoul_witness:
  "get_veff rt0 envH ksH PNone (PArr dmH) (PNum 0) (PNum 0) 1 None None w0 =
     Inr (tag_array (both_spins (mat2 3 0 0 3)) (Some 8) (- 1 / 2) None None,
          ksH\<lparr>rec_t0 := Some 2, rec_w0 := Some 102, ks_grids := gridsH_pruned\<rparr>,
          w0\<lparr>nclock := 3, ntime := 3,
             invoked := [CallBuild, CallNrUks, CallHybridCoeff, CallGetJ, CallLargeRho,
                         CallMakeMask]\<rparr>)
   \<and> ndim dmH = 4 \<and> shape dmH ! 0 = 2
   \<and> tag_ecoul (tag_array (both_spins (mat2 3 0 0 3)) (Some 8) (- 1 / 2) None None) \<noteq> None
   \<and> get_veff rt0 envH ksH PNone (PArr dmH) (PNum 0) (PNum 0) 1 None (Some kptsH) w0 =
     Inr (tag_array (both_spins (mat2 3 0 0 3)) None (- 1 / 2) None None,
          ksH\<lparr>rec_t0 := Some 2, rec_w0 := Some 102, ks_grids := gridsH\<rparr>,
          w0\<lparr>nclock := 3, ntime := 3,
             invoked := [CallBuild, CallNrUks, CallHybridCoeff, CallGetJ]\<rparr>)
   \<and> tag_ecoul (tag_array (both_spins (mat2 3 0 0 3)) None (- 1 / 2) None None) = None"
proof -
  have sh: "ndim dmH = 4" "shape dmH ! 0 = 2"
    by (simp_all add: dmH_def both_spins_def mat2_def)
  from get_veff_ground_state_ecoul [OF run_lda] obtain d a where
    "d = PArr dmH" "d = PArr a \<or> (\<exists>t. d = PTagged t \<and> a = tagged t)"
    "(tag_ecoul (tag_array (both_spins (mat2 3 0 0 3)) (Some 8) (- 1 / 2) None None) \<noteq> None)
      = (ndim a = 4 \<and> shape a ! 0 = 2 \<and> (None :: ndarray option) = None)"
    by auto
  with sh have present:
    "tag_ecoul (tag_array (both_spins (mat2 3 0 0 3)) (Some 8) (- 1 / 2) None None) \<noteq> None"
    by auto
  from get_veff_ground_state_ecoul [OF run_band] obtain d' a' where
    "(tag_ecoul (tag_array (both_spins (mat2 3 0 0 3)) None (- 1 / 2) None None) \<noteq> None)
      = (ndim a' = 4 \<and> shape a' ! 0 = 2 \<and> Some kptsH = None)"
    by auto
  then have absent:
    "tag_ecoul (tag_array (both_spins (mat2 3 0 0 3)) None (- 1 / 2) None None) = None"
    by simp
  from sh present absent run_lda run_band show ?thesis by simp
qed

text \<open>
  C3, as the code has it.  In a call of \<open>get_veff\<close> that returns, let \<open>hyb\<close> be the hybrid
  coefficient of the functional and \<open>(n, exc0, vxc0)\<close> the outcome of the integration step.
  If \<open>\<bar>hyb\<bar> < 1e-10\<close>, then \<open>get_j\<close> has been called and \<open>get_jk\<close> has not, the returned
  array is \<open>vxc0\<close> plus \<open>vj[0] + vj[1]\<close>, and \<open>exc\<close> is \<open>exc0\<close>.  Otherwise \<open>get_jk\<close> has
  been called and \<open>get_j\<close> has not, the returned array is \<open>vxc0\<close> plus
  \<open>vj[0] + vj[1] - vk * hyb\<close>, and \<open>exc\<close> is, on a ground-state evaluation, \<open>exc0\<close>
  reduced by \<open>0.5 * hyb * weight\<close> times the real part of the sum over both spins \<open>s\<close> and
  over \<open>K\<close>, \<open>i\<close>, \<open>j\<close> of \<open>dm[s][K,i,j] * vk[s][K,j,i]\<close>, which is the trace of the
  product of \<open>dm[s][K]\<close> and \<open>vk[s][K]\<close> itself; off the ground state \<open>exc\<close> is \<open>exc0\<close>.
\<close>

theorem get_veff_hybrid_threshold:
  assumes "get_veff rt env ks cell dm dm_last vhf_last hermi kpts kpts_band w = Inr (v, ks', w')"
  shows "\<exists>c d k ksj n exc0 vxc0 sp hyb gs weight vj j.
           c = (if cell = PNone then PCell (ks_cell ks) else cell) \<and>
           k = (case kpts of None \<Rightarrow> ks_kpts ks | Some k \<Rightarrow> k) \<and>
           (if dm = PNone then make_rdm1 env ks else Inr dm) = Inr d \<and>
           (if hermi = 2 then (n, exc0, vxc0) = ((0, 0), 0, Scalar 0)
            else nr_uks env c (ks_grids ksj) (ks_xc ks) d k kpts_band = Inr (n, exc0, vxc0)) \<and>
           attr_spin c = Inr sp \<and> hybrid_coeff env (ks_xc ks) sp = Inr hyb \<and>
           ground_state_of d kpts_band = Inr gs \<and> kpt_weight k = Inr weight \<and>
           add01 vj = Inr j \<and>
           (if \<bar>hyb\<bar> < 1 / 10 ^ 10
            then get_j env ksj c d hermi k kpts_band = Inr vj \<and>
                 CallGetJ \<in> set (new_calls w w') \<and> CallGetJK \<notin> set (new_calls w w') \<and>
                 np_iadd vxc0 j = Inr (tagged v) \<and> tag_exc v = exc0
            else \<exists>vk kh jk.
                   get_jk env ksj c d hermi k kpts_band = Inr (vj, vk) \<and>
                   CallGetJK \<in> set (new_calls w w') \<and> CallGetJ \<notin> set (new_calls w w') \<and>
                   np_mul vk (Scalar (complex_of_real hyb)) = Inr kh \<and>
                   np_sub j kh = Inr jk \<and> np_iadd vxc0 jk = Inr (tagged v) \<and>
                   (if gs
                    then \<exists>e. exchange_trace d vk = Inr e \<and>
                             tag_exc v = exc0 - (1 / 2) * hyb * weight * Re e
                    else tag_exc v = exc0))"
proof -
  define c where "c = (if cell = PNone then PCell (ks_cell ks) else cell)"
  define k where "k = (case kpts of None \<Rightarrow> ks_kpts ks | Some k \<Rightarrow> k)"
  from assms obtain d wa cutoff t0 ks1 w1 n exc0 vxc0 t1 ks2 w2 gs weight vj vxc1 exc1 w3 ecoul
    where st:
    "(if dm = PNone then bindE (make_rdm1 env ks) (\<lambda>d. Inr (d, invoke CallMakeRdm1 w))
      else Inr (dm, w)) = Inr (d, wa)"
    "setup_grids rt env ks wa = Inr (cutoff, t0, ks1, w1)"
    "integrate_xc rt env ks1 c d hermi k kpts_band t0 w1 = Inr ((n, exc0, vxc0), t1, ks2, w2)"
    "ground_state_of d kpts_band = Inr gs"
    "kpt_weight k = Inr weight"
    "coulomb_exchange env ks2 c d hermi k kpts_band gs weight exc0 vxc0 w2
     = Inr (vj, vxc1, exc1, w3)"
    "coulomb_energy d vj gs weight = Inr ecoul"
    "v = tag_array vxc1 ecoul exc1 None None"
    "prune_grids rt env ks2 c d k cutoff gs n w3 = Inr (ks', w')"
    unfolding c_def k_def by (rule get_veff_InrE)
  have d: "(if dm = PNone then make_rdm1 env ks else Inr dm) = Inr d"
    using st(1) by (auto simp: bindE_eq_Inr split: if_splits)
  have xcs: "ks_xc ks2 = ks_xc ks" "ks_grids ks2 = ks_grids ks1"
    using setup_grids_Inr [OF st(2)] integrate_xc_Inr [OF st(3)] by simp_all
  have n: "if hermi = 2 then (n, exc0, vxc0) = ((0, 0), 0, Scalar 0)
           else nr_uks env c (ks_grids ks2) (ks_xc ks) d k kpts_band = Inr (n, exc0, vxc0)"
    using integrate_xc_Inr [OF st(3)] setup_grids_Inr [OF st(2)] xcs by (auto split: if_splits)
  from coulomb_exchange_Inr [OF st(6)] obtain sp hyb j where
    sp: "attr_spin c = Inr sp" and hyb: "hybrid_coeff env (ks_xc ks) sp = Inr hyb" and
    j: "add01 vj = Inr j" and
    br: "if \<bar>hyb\<bar> < 1 / 10 ^ 10
         then get_j env ks2 c d hermi k kpts_band = Inr vj \<and>
              np_iadd vxc0 j = Inr vxc1 \<and> exc1 = exc0 \<and>
              invoked w3 = invoked w2 @ [CallHybridCoeff, CallGetJ]
         else \<exists>vk kh jk.
                get_jk env ks2 c d hermi k kpts_band = Inr (vj, vk) \<and>
                np_mul vk (Scalar (complex_of_real hyb)) = Inr kh \<and>
                np_sub j kh = Inr jk \<and> np_iadd vxc0 jk = Inr vxc1 \<and>
                invoked w3 = invoked w2 @ [CallHybridCoeff, CallGetJK] \<and>
                (if gs
                 then \<exists>e. exchange_trace d vk = Inr e \<and>
                          exc1 = exc0 - Re e * hyb * (1 / 2) * weight
                 else exc1 = exc0)"
    unfolding xcs by blast
  from get_veff_call_chain [OF assms st(1) st(2) st(3) st(6) st(9)] obtain pre x pr where
    ch: "invoked w3 = invoked w2 @ [CallHybridCoeff, x]"
        "new_calls w w' = pre @ [CallHybridCoeff, x] @ pr"
        "pre = (if dm = PNone then [CallMakeRdm1] else []) @
               (if coords (ks_grids ks) = None then [CallBuild] else []) @
               (if hermi = 2 then [] else [CallNrUks])"
        "pr = [] \<or> pr = [CallLargeRho, CallMakeMask]"
    by blast
  have v: "tagged v = vxc1" "tag_exc v = exc1"
    using st(8) by (simp_all add: tag_array_def)
  have branch:
    "if \<bar>hyb\<bar> < 1 / 10 ^ 10
     then get_j env ks2 c d hermi k kpts_band = Inr vj \<and>
          CallGetJ \<in> set (new_calls w w') \<and> CallGetJK \<notin> set (new_calls w w') \<and>
          np_iadd vxc0 j = Inr (tagged v) \<and> tag_exc v = exc0
     else \<exists>vk kh jk.
            get_jk env ks2 c d hermi k kpts_band = Inr (vj, vk) \<and>
            CallGetJK \<in> set (new_calls w w') \<and> CallGetJ \<notin> set (new_calls w w') \<and>
            np_mul vk (Scalar (complex_of_real hyb)) = Inr kh \<and>
            np_sub j kh = Inr jk \<and> np_iadd vxc0 jk = Inr (tagged v) \<and>
            (if gs
             then \<exists>e. exchange_trace d vk = Inr e \<and>
                      tag_exc v = exc0 - (1 / 2) * hyb * weight * Re e
             else tag_exc v = exc0)"
  proof (cases "\<bar>hyb\<bar> < 1 / 10 ^ 10")
    case True
    with br have g: "get_j env ks2 c d hermi k kpts_band = Inr vj"
      "np_iadd vxc0 j = Inr vxc1" "exc1 = exc0"
      "invoked w3 = invoked w2 @ [CallHybridCoeff, CallGetJ]"
      by simp_all
    from g(4) ch(1) have "x = CallGetJ" by simp
    with ch(2-4) have "CallGetJ \<in> set (new_calls w w')" "CallGetJK \<notin> set (new_calls w w')"
      by auto
    with True g v show ?thesis by simp
  next
    case False
    with br obtain vk kh jk where
      jk: "get_jk env ks2 c d hermi k kpts_band = Inr (vj, vk)"
          "np_mul vk (Scalar (complex_of_real hyb)) = Inr kh"
          "np_sub j kh = Inr jk" "np_iadd vxc0 jk = Inr vxc1"
          "invoked w3 = invoked w2 @ [CallHybridCoeff, CallGetJK]" and
      ex: "if gs then \<exists>e. exchange_trace d vk = Inr e \<and>
                            exc1 = exc0 - Re e * hyb * (1 / 2) * weight
           else exc1 = exc0"
      by auto
    from jk(5) ch(1) have "x = CallGetJK" by simp
    with ch(2-4) have mem: "CallGetJK \<in> set (new_calls w w')" "CallGetJ \<notin> set (new_calls w w')"
      by auto
    from ex have ex': "if gs then \<exists>e. exchange_trace d vk = Inr e \<and>
                            tag_exc v = exc0 - (1 / 2) * hyb * weight * Re e
           else tag_exc v = exc0"
      by (cases gs) (auto simp: v)
    have "get_jk env ks2 c d hermi k kpts_band = Inr (vj, vk) \<and>
            CallGetJK \<in> set (new_calls w w') \<and> CallGetJ \<notin> set (new_calls w w') \<and>
            np_mul vk (Scalar (complex_of_real hyb)) = Inr kh \<and>
            np_sub j kh = Inr jk \<and> np_iadd vxc0 jk = Inr (tagged v) \<and>
            (if gs
             then \<exists>e. exchange_trace d vk = Inr e \<and>
                      tag_exc v = exc0 - (1 / 2) * hyb * weight * Re e
             else tag_exc v = exc0)"
      using jk(1-4) mem ex' v(1) by (simp only: simp_thms)
    then have "\<exists>vk kh jk.
            get_jk env ks2 c d hermi k kpts_band = Inr (vj, vk) \<and>
            CallGetJK \<in> set (new_calls w w') \<and> CallGetJ \<notin> set (new_calls w w') \<and>
            np_mul vk (Scalar (complex_of_real hyb)) = Inr kh \<and>
            np_sub j kh = Inr jk \<and> np_iadd vxc0 jk = Inr (tagged v) \<and>
            (if gs
             then \<exists>e. exchange_trace d vk = Inr e \<and>
                      tag_exc v = exc0 - (1 / 2) * hyb * weight * Re e
             else tag_exc v = exc0)"
      by (intro exI)
    with False show ?thesis by (simp only: if_False)
  qed
  show ?thesis
    apply (intro exI conjI)
             apply (rule c_def)
            apply (rule k_def)
           apply (rule d)
          apply (rule n)
         apply (rule sp)
        apply (rule hyb)
       apply (rule st(4))
      apply (rule st(5))
     apply (rule j)
    apply (rule branch)
    done
qed

theorem get_veff_hybrid_threshold_witness:
  "get_veff rt0 envH (ksH\<lparr>ks_xc := ''B3LYP''\<rparr>) PNone (PArr dmH) (PNum 0) (PNum 0) 1 None None w0 =
     Inr (tag_array (both_spins (mat2 3 (- \<i> / 5) (\<i> / 5) 3)) (Some 8) (- 9 / 10) None None,
          ksH\<lparr>rec_t0 := Some 2, rec_w0 := Some 102, ks_xc := ''B3LYP'',
               ks_grids := gridsH_pruned\<rparr>,
          w0\<lparr>nclock := 3, ntime := 3,
             invoked := [CallBuild, CallNrUks, CallHybridCoeff, CallGetJK, CallLargeRho,
                         CallMakeMask]\<rparr>)
   \<and> \<not> \<bar>1 / 5 :: real\<bar> < 1 / 10 ^ 10
   \<and> CallGetJK \<in> set (new_calls w0
         (w0\<lparr>nclock := 3, ntime := 3,
             invoked := [CallBuild, CallNrUks, CallHybridCoeff, CallGetJK, CallLargeRho,
                         CallMakeMask]\<rparr>))
   \<and> tag_exc (tag_array (both_spins (mat2 3 (- \<i> / 5) (\<i> / 5) 3)) (Some 8) (- 9 / 10)
                None None)
       = - 1 / 2 - (1 / 2) * (1 / 5) * 1 * Re 4"
proof -
  let ?v = "tag_array (both_spins (mat2 3 (- \<i> / 5) (\<i> / 5) 3)) (Some 8) (- 9 / 10) None None"
  let ?w = "w0\<lparr>nclock := 3, ntime := 3,
             invoked := [CallBuild, CallNrUks, CallHybridCoeff, CallGetJK, CallLargeRho,
                         CallMakeMask]\<rparr>"
  from get_veff_hybrid_threshold [OF run_b3lyp]
  obtain c d k ksj n exc0 vxc0 sp hyb gs weight vj j where
    f: "(if PArr dmH = PNone then make_rdm1 envH (ksH\<lparr>ks_xc := ''B3LYP''\<rparr>) else Inr (PArr dmH))
          = Inr d"
       "k = (case None of None \<Rightarrow> ks_kpts (ksH\<lparr>ks_xc := ''B3LYP''\<rparr>) | Some k \<Rightarrow> k)"
       "(if (1::int) = 2 then (n, exc0, vxc0) = ((0, 0), 0, Scalar 0)
         else nr_uks envH c (ks_grids ksj) (ks_xc (ksH\<lparr>ks_xc := ''B3LYP''\<rparr>)) d k None
              = Inr (n, exc0, vxc0))"
       "hybrid_coeff envH (ks_xc (ksH\<lparr>ks_xc := ''B3LYP''\<rparr>)) sp = Inr hyb"
       "ground_state_of d None = Inr gs" "kpt_weight k = Inr weight" and
    br: "if \<bar>hyb\<bar> < 1 / 10 ^ 10
         then get_j envH ksj c d 1 k None = Inr vj \<and>
              CallGetJ \<in> set (new_calls w0 ?w) \<and> CallGetJK \<notin> set (new_calls w0 ?w) \<and>
              np_iadd vxc0 j = Inr (tagged ?v) \<and> tag_exc ?v = exc0
         else \<exists>vk kh jk.
                get_jk envH ksj c d 1 k None = Inr (vj, vk) \<and>
                CallGetJK \<in> set (new_calls w0 ?w) \<and> CallGetJ \<notin> set (new_calls w0 ?w) \<and>
                np_mul vk (Scalar (complex_of_real hyb)) = Inr kh \<and>
                np_sub j kh = Inr jk \<and> np_iadd vxc0 jk = Inr (tagged ?v) \<and>
                (if gs
                 then \<exists>e. exchange_trace d vk = Inr e \<and>
                          tag_exc ?v = exc0 - (1 / 2) * hyb * weight * Re e
                 else tag_exc ?v = exc0)"
    by blast
  from f(1) have d: "d = PArr dmH" by simp
  from f(2) have k: "k = kptsH" by (simp add: ksH_def KUKS_def ks.defs logrec.defs)
  from f(3) have e0: "exc0 = - 1 / 2" by (simp add: envH_def)
  from f(4) have hyb: "hyb = 1 / 5"
    by (simp add: envH_def ksH_def KUKS_def ks.defs logrec.defs)
  from f(5) d have gs: "gs" by (simp add: dmH_def both_spins_def mat2_def)
  from f(6) k have wt: "weight = 1" by (simp add: kpt_weight_def kptsH_def)
  from br hyb gs obtain vk e where
    "get_jk envH ksj c d 1 k None = Inr (vj, vk)" "CallGetJK \<in> set (new_calls w0 ?w)"
    "exchange_trace d vk = Inr e" "tag_exc ?v = exc0 - (1 / 2) * hyb * weight * Re e"
    by auto
  moreover from this(1) have "vk = vkH" by (simp add: envH_def)
  ultimately have "CallGetJK \<in> set (new_calls w0 ?w)"
    and "tag_exc ?v = - 1 / 2 - (1 / 2) * (1 / 5) * 1 * Re 4"
    using d e0 hyb wt code_trace_example by simp_all
  with run_b3lyp show ?thesis by simp
qed

text \<open>
  C3, as the specification words it, fails.  In the example system with \<open>B3LYP\<close>, a
  ground-state evaluation with \<open>exc0 = -1/2\<close>, \<open>hyb = 1/5\<close> and \<open>weight = 1\<close>, the call
  returns \<open>exc = -9/10\<close>: the contraction of the code is 4.  The trace of the product with
  the transpose of \<open>vk\<close> is \<open>-4\<close>, which would give \<open>exc = -1/10\<close>.
\<close>

theorem exchange_correction_is_not_transposed_trace:
  "get_veff rt0 envH (ksH\<lparr>ks_xc := ''B3LYP''\<rparr>) PNone (PArr dmH) (PNum 0) (PNum 0) 1 None None w0 =
     Inr (tag_array (both_spins (mat2 3 (- \<i> / 5) (\<i> / 5) 3)) (Some 8) (- 9 / 10) None None,
          ksH\<lparr>rec_t0 := Some 2, rec_w0 := Some 102, ks_xc := ''B3LYP'',
               ks_grids := gridsH_pruned\<rparr>,
          w0\<lparr>nclock := 3, ntime := 3,
             invoked := [CallBuild, CallNrUks, CallHybridCoeff, CallGetJK, CallLargeRho,
                         CallMakeMask]\<rparr>)
   \<and> nr_uks envH (PCell cellH) gridsH ''B3LYP'' (PArr dmH) kptsH None
       = Inr ((20201 / 10000, 20201 / 10000), - 1 / 2, vxcH)
   \<and> hybrid_coeff envH ''B3LYP'' 0 = Inr (1 / 5)
   \<and> get_jk envH (ksH\<lparr>ks_xc := ''B3LYP''\<rparr>) (PCell cellH) (PArr dmH) 1 kptsH None
       = Inr (vjH, vkH)
   \<and> ground_state_of (PArr dmH) None = Inr True
   \<and> kpt_weight kptsH = Inr 1
   \<and> tag_exc (tag_array (both_spins (mat2 3 (- \<i> / 5) (\<i> / 5) 3)) (Some 8) (- 9 / 10)
                None None)
       \<noteq> - 1 / 2 - (1 / 2) * (1 / 5) * 1 * Re (claimed_exchange_trace dmH vkH)"
  using run_b3lyp claimed_trace_example
  by (simp add: envH_def tag_array_def kpt_weight_def kptsH_def dmH_def both_spins_def mat2_def)




text \<open>
  C2.  \<open>energy_elec\<close> recomputes the potential with \<open>self.get_veff(self, self.cell,
  dm_kpts)\<close>.  \<open>get_veff\<close> is a bound method, so the solver arrives as \<open>cell\<close>, the cell
  as \<open>dm\<close>, and the density matrices as \<open>dm_last\<close>, which \<open>get_veff\<close> never reads.  A
  cell is not an array: the call raises, and so does every call of \<open>energy_elec\<close> that
  recomputes the potential.
\<close>

lemma get_veff_dm_must_be_array:
  "get_veff rt env ks c (PCell x) dl vl h k kb w \<noteq> Inr r"
proof
  assume "get_veff rt env ks c (PCell x) dl vl h k kb w = Inr r"
  then have "get_veff rt env ks c (PCell x) dl vl h k kb w = Inr (fst r, fst (snd r), snd (snd r))"
    by simp
  then obtain d wa gs where
    "(if PCell x = PNone then bindE (make_rdm1 env ks) (\<lambda>d. Inr (d, invoke CallMakeRdm1 w))
      else Inr (PCell x, w)) = Inr (d, wa)"
    "ground_state_of d kb = Inr gs"
    by (rule get_veff_InrE)
  then show False by auto
qed

lemma energy_elec_recompute_raises:
  assumes "vhf = PNone \<or> getattr_ecoul vhf = None"
  shows "\<exists>e. energy_elec rt env self dm_kpts h1e_kpts vhf w = Inl e"
proof (cases "energy_elec rt env self dm_kpts h1e_kpts vhf w")
  case (Inl e)
  then show ?thesis by blast
next
  case (Inr r)
  with assms obtain d wa r' where
    "bound_get_veff rt env self PSolver (PCell (ks_cell self)) d wa = Inr r'"
    unfolding energy_elec_def
    by (simp only: bindE_eq_Inr split_paired_Ex prod.case if_True) blast
  then show ?thesis
    by (simp add: bound_get_veff_def get_veff_dm_must_be_array)
qed

text \<open>
  C2, on the example system: \<open>energy_elec\<close> without \<open>vhf\<close> raises \<open>AttributeError\<close>, as
  does the call of \<open>get_veff\<close> it makes; the call on the cell and the density matrices
  returns, and with that result as \<open>vhf\<close>, \<open>energy_elec\<close> returns the two energies.
\<close>

theorem energy_elec_without_vhf_raises:
  "energy_elec rt0 envH ksH (PArr dmH) (Some h1eH) PNone w0 = Inl AttributeError
   \<and> bound_get_veff rt0 envH ksH PSolver (PCell (ks_cell ksH)) (PArr dmH) w0
       = get_veff rt0 envH ksH PSolver (PCell cellH) (PArr dmH) (PNum 0) 1 None None w0
   \<and> get_veff rt0 envH ksH PSolver (PCell cellH) (PArr dmH) (PNum 0) 1 None None w0
       = Inl AttributeError
   \<and> get_veff rt0 envH ksH (PCell cellH) (PArr dmH) (PNum 0) (PNum 0) 1 None None w0 =
       Inr (tag_array (both_spins (mat2 3 0 0 3)) (Some 8) (- 1 / 2) None None,
            ksH\<lparr>rec_t0 := Some 2, rec_w0 := Some 102, ks_grids := gridsH_pruned\<rparr>,
            w0\<lparr>nclock := 3, ntime := 3,
               invoked := [CallBuild, CallNrUks, CallHybridCoeff, CallGetJ, CallLargeRho,
                           CallMakeMask]\<rparr>)
   \<and> energy_elec rt0 envH ksH (PArr dmH) (Some h1eH)
        (PTagged (tag_array (both_spins (mat2 3 0 0 3)) (Some 8) (- 1 / 2) None None)) w0
       = Inr ((7 / 2, 15 / 2), ksH, w0)"
proof -
  have a: "bound_get_veff rt0 envH ksH PSolver (PCell (ks_cell ksH)) (PArr dmH) w0
       = get_veff rt0 envH ksH PSolver (PCell cellH) (PArr dmH) (PNum 0) 1 None None w0"
    by (simp add: bound_get_veff_def ksH_def KUKS_def ks.defs logrec.defs)
  have b: "get_veff rt0 envH ksH PSolver (PCell cellH) (PArr dmH) (PNum 0) 1 None None w0
       = Inl AttributeError"
    by (simp add: run_defs ex_defs Let_def)
  have c: "get_veff rt0 envH ksH (PCell cellH) (PArr dmH) (PNum 0) (PNum 0) 1 None None w0 =
       Inr (tag_array (both_spins (mat2 3 0 0 3)) (Some 8) (- 1 / 2) None None,
            ksH\<lparr>rec_t0 := Some 2, rec_w0 := Some 102, ks_grids := gridsH_pruned\<rparr>,
            w0\<lparr>nclock := 3, ntime := 3,
               invoked := [CallBuild, CallNrUks, CallHybridCoeff, CallGetJ, CallLargeRho,
                           CallMakeMask]\<rparr>)"
    by (simp add: run_defs ex_defs Let_def)
  from a b c run_energy_no_vhf run_energy_vhf show ?thesis by simp
qed

end
